theory Spec2Isabelle
  imports Main "HOL-Library.Sublist"
begin

section \<open>Python values used by the agent\<close>

text \<open>
  The agent is Python. A \<open>str\<close> is modelled as \<^typ>\<open>string\<close>, one \<^typ>\<open>char\<close> per code
  point, so the model covers text whose code points are below 256. Every exception
  that the source can raise is a value of \<open>py_error\<close>; a function that may raise
  returns \<open>py_error + 'a\<close> with \<open>Inl\<close> for the exception. The text carried by
  \<open>ValueError\<close> and \<open>OSError\<close> is what \<open>str(exc)\<close> yields; operating-system texts are
  abbreviated to the name of the error.
\<close>

datatype py_error =
    ValueError string
  | JSONDecodeError
  | UnicodeDecodeError
  | OSError string
  | TypeError
  | AttributeError
  | IndexError
  | KeyError

text \<open>\<open>JSONDecodeError\<close> and \<open>UnicodeDecodeError\<close> are subclasses of \<open>ValueError\<close>.\<close>

definition is_ValueError :: "py_error \<Rightarrow> bool" where
  "is_ValueError e =
     (case e of ValueError m \<Rightarrow> True | JSONDecodeError \<Rightarrow> True
              | UnicodeDecodeError \<Rightarrow> True | _ \<Rightarrow> False)"

definition is_OSError :: "py_error \<Rightarrow> bool" where
  "is_OSError e = (case e of OSError m \<Rightarrow> True | _ \<Rightarrow> False)"

definition exc_str :: "py_error \<Rightarrow> string" where
  "exc_str e =
     (case e of
        ValueError m \<Rightarrow> m
      | OSError m \<Rightarrow> m
      | JSONDecodeError \<Rightarrow> ''JSONDecodeError''
      | UnicodeDecodeError \<Rightarrow> ''UnicodeDecodeError''
      | TypeError \<Rightarrow> ''TypeError''
      | AttributeError \<Rightarrow> ''AttributeError''
      | IndexError \<Rightarrow> ''IndexError''
      | KeyError \<Rightarrow> ''KeyError'')"

text \<open>
  The values that \<open>json.loads\<close> produces and \<open>json.dumps\<close> consumes. A \<open>dict\<close> keeps
  its items in insertion order, so it is an association list. A float is kept as its
  lexeme.
\<close>

datatype json =
    JNull
  | JBool bool
  | JInt int
  | JFloat string
  | JString string
  | JArray "json list"
  | JObject "(string \<times> json) list"

subsection \<open>Strings\<close>

text \<open>\<open>str.isspace\<close> on the code points below 256.\<close>

definition is_space :: "char \<Rightarrow> bool" where
  "is_space c = (c \<in> set [CHR 0x09, CHR 0x0A, CHR 0x0B, CHR 0x0C, CHR 0x0D,
                           CHR 0x1C, CHR 0x1D, CHR 0x1E, CHR 0x1F, CHR 0x20,
                           CHR 0x85, CHR 0xA0])"

text \<open>
  The non-empty pieces of a string between separator characters, left to right;
  \<open>w\<close> is the piece being read.
\<close>

fun split_on :: "(char \<Rightarrow> bool) \<Rightarrow> string \<Rightarrow> string \<Rightarrow> string list" where
  "split_on sep w [] = (if w = [] then [] else [w])"
| "split_on sep w (c # cs) =
     (if sep c then (if w = [] then split_on sep [] cs else w # split_on sep [] cs)
      else split_on sep (w @ [c]) cs)"

text \<open>\<open>s.split()\<close>, \<open>s.strip()\<close>, \<open>s.split(maxsplit=1)\<close> and \<open>s.lower()\<close>.\<close>

definition py_split :: "string \<Rightarrow> string list" where
  "py_split s = split_on is_space [] s"

definition py_strip :: "string \<Rightarrow> string" where
  "py_strip s = rev (dropWhile is_space (rev (dropWhile is_space s)))"

definition py_split_max1 :: "string \<Rightarrow> string list" where
  "py_split_max1 s =
     (let s1 = dropWhile is_space s
      in if s1 = [] then []
         else let w = takeWhile (\<lambda>c. \<not> is_space c) s1;
                  r = dropWhile is_space (dropWhile (\<lambda>c. \<not> is_space c) s1)
              in if r = [] then [w] else [w, r])"

definition py_lower_char :: "char \<Rightarrow> char" where
  "py_lower_char c =
     (let n = (of_char c :: nat)
      in if (65 \<le> n \<and> n \<le> 90) \<or> (192 \<le> n \<and> n \<le> 222 \<and> n \<noteq> 215)
         then char_of (n + 32) else c)"

definition py_lower :: "string \<Rightarrow> string" where
  "py_lower s = map py_lower_char s"

text \<open>\<open>needle in hay\<close> for strings.\<close>

fun py_in :: "string \<Rightarrow> string \<Rightarrow> bool" where
  "py_in needle [] = (needle = [])"
| "py_in needle (c # cs) = (prefix needle (c # cs) \<or> py_in needle cs)"

text \<open>\<open>s[-n:]\<close> for a positive constant \<open>n\<close>: the last \<open>n\<close> characters, all of \<open>s\<close> when it is shorter.\<close>

definition py_tail :: "nat \<Rightarrow> 'a list \<Rightarrow> 'a list" where
  "py_tail n s = drop (length s - n) s"

text \<open>\<open>xs[start:]\<close> for an arbitrary integer \<open>start\<close>.\<close>

definition py_slice_from :: "int \<Rightarrow> 'a list \<Rightarrow> 'a list" where
  "py_slice_from start xs =
     (let n = int (length xs);
          lo = (if start < 0 then max (start + n) 0 else min start n)
      in drop (nat lo) xs)"

fun join_str :: "string \<Rightarrow> string list \<Rightarrow> string" where
  "join_str sep [] = []"
| "join_str sep [x] = x"
| "join_str sep (x # y # ys) = x @ sep @ join_str sep (y # ys)"

text \<open>\<open>str(n)\<close> for an integer.\<close>

fun str_nat :: "nat \<Rightarrow> string" where
  "str_nat n =
     (if n < 10 then [char_of (48 + n)]
      else str_nat (n div 10) @ [char_of (48 + n mod 10)])"

declare str_nat.simps [simp del]

definition str_int :: "int \<Rightarrow> string" where
  "str_int i = (if i < 0 then CHR ''-'' # str_nat (nat (- i)) else str_nat (nat i))"

text \<open>\<open>len(s.encode("utf-8"))\<close>: a code point below 128 is one byte, one below 256 two.\<close>

definition utf8_length :: "string \<Rightarrow> nat" where
  "utf8_length s = sum_list (map (\<lambda>c. if (of_char c :: nat) < 128 then 1 else 2) s)"

subsection \<open>The json library\<close>

text \<open>
  \<open>json.loads\<close> of the standard library, as a recursive-descent parser. The fuel
  bounds the nesting of calls and is taken from the length of the input. Two
  differences from Python, both outside what the agent's claims use: an escape
  \<open>\uXXXX\<close> of a code point above 255 has no \<^typ>\<open>char\<close> and is rejected, and a
  float is kept as its lexeme.
\<close>

definition json_ws :: "char \<Rightarrow> bool" where
  "json_ws c = (c \<in> set [CHR 0x20, CHR 0x09, CHR 0x0A, CHR 0x0D])"

definition skip_ws :: "string \<Rightarrow> string" where
  "skip_ws s = dropWhile json_ws s"

definition is_digit :: "char \<Rightarrow> bool" where
  "is_digit c = ((48::nat) \<le> of_char c \<and> (of_char c :: nat) \<le> 57)"

definition nat_of_digits :: "string \<Rightarrow> nat" where
  "nat_of_digits ds = foldl (\<lambda>n c. 10 * n + (of_char c - 48)) 0 ds"

definition hex_val :: "char \<Rightarrow> nat option" where
  "hex_val c =
     (let n = (of_char c :: nat)
      in if 48 \<le> n \<and> n \<le> 57 then Some (n - 48)
         else if 65 \<le> n \<and> n \<le> 70 then Some (n - 55)
         else if 97 \<le> n \<and> n \<le> 102 then Some (n - 87)
         else None)"

definition hex4 :: "char \<Rightarrow> char \<Rightarrow> char \<Rightarrow> char \<Rightarrow> nat option" where
  "hex4 a b c d =
     (case (hex_val a, hex_val b, hex_val c, hex_val d) of
        (Some x, Some y, Some z, Some w) \<Rightarrow> Some (((x * 16 + y) * 16 + z) * 16 + w)
      | _ \<Rightarrow> None)"

definition unescape :: "char \<Rightarrow> char option" where
  "unescape e =
     (if e = CHR 0x22 then Some (CHR 0x22)
      else if e = CHR 0x5C then Some (CHR 0x5C)
      else if e = CHR ''/'' then Some (CHR ''/'')
      else if e = CHR ''b'' then Some (CHR 0x08)
      else if e = CHR ''f'' then Some (CHR 0x0C)
      else if e = CHR ''n'' then Some (CHR 0x0A)
      else if e = CHR ''r'' then Some (CHR 0x0D)
      else if e = CHR ''t'' then Some (CHR 0x09)
      else None)"

text \<open>The body of a string literal, after the opening quote: the text and the rest.\<close>

fun scan_string :: "string \<Rightarrow> string \<Rightarrow> (string \<times> string) option" where
  "scan_string acc [] = None"
| "scan_string acc [c] = (if c = CHR 0x22 then Some (acc, []) else None)"
| "scan_string acc (c # e # cs) =
     (if c = CHR 0x22 then Some (acc, e # cs)
      else if c = CHR 0x5C then
        (if e = CHR ''u'' then
           (case cs of
              h1 # h2 # h3 # h4 # rest \<Rightarrow>
                (case hex4 h1 h2 h3 h4 of
                   None \<Rightarrow> None
                 | Some n \<Rightarrow> if n < 256 then scan_string (acc @ [char_of n]) rest else None)
            | _ \<Rightarrow> None)
         else (case unescape e of
                 None \<Rightarrow> None
               | Some x \<Rightarrow> scan_string (acc @ [x]) cs))
      else if (of_char c :: nat) < 32 then None
      else scan_string (acc @ [c]) (e # cs))"

text \<open>
  A number, by the library's pattern
  \<^verbatim>\<open>(-?(?:0|[1-9]\d*))(\.\d+)?([eE][-+]?\d+)?\<close>:
  an integer when there is neither a fraction nor an exponent.
\<close>

definition scan_number :: "string \<Rightarrow> (json \<times> string) option" where
  "scan_number s =
     (let neg = (s \<noteq> [] \<and> hd s = CHR ''-'');
          s1 = (if neg then tl s else s)
      in if s1 = [] \<or> \<not> is_digit (hd s1) then None
         else
           let ip = (if hd s1 = CHR ''0'' then ''0'' else takeWhile is_digit s1);
               r1 = drop (length ip) s1;
               fd = (if r1 \<noteq> [] \<and> hd r1 = CHR ''.'' then takeWhile is_digit (tl r1) else []);
               frac = (if fd = [] then [] else CHR ''.'' # fd);
               r2 = drop (length frac) r1;
               e1 = (if r2 \<noteq> [] \<and> (hd r2 = CHR ''e'' \<or> hd r2 = CHR ''E'') then tl r2 else []);
               sg = (if e1 \<noteq> [] \<and> (hd e1 = CHR ''+'' \<or> hd e1 = CHR ''-'') then [hd e1] else []);
               ed = takeWhile is_digit (drop (length sg) e1);
               ex = (if ed = [] then [] else hd r2 # sg @ ed);
               r3 = drop (length ex) r2
           in if frac = [] \<and> ex = []
              then Some (JInt (if neg then - int (nat_of_digits ip) else int (nat_of_digits ip)), r3)
              else Some (JFloat ((if neg then ''-'' else []) @ ip @ frac @ ex), r3))"

fun parse_value :: "nat \<Rightarrow> string \<Rightarrow> (json \<times> string) option"
  and parse_elems :: "nat \<Rightarrow> json list \<Rightarrow> string \<Rightarrow> (json list \<times> string) option"
  and parse_members :: "nat \<Rightarrow> (string \<times> json) list \<Rightarrow> string
                          \<Rightarrow> ((string \<times> json) list \<times> string) option"
where
  "parse_value 0 s = None"
| "parse_value (Suc k) s =
     (if s = [] then None
      else if hd s = CHR 0x22 then
        (case scan_string [] (tl s) of None \<Rightarrow> None | Some (str, r) \<Rightarrow> Some (JString str, r))
      else if hd s = CHR ''{'' then
        (let r = skip_ws (tl s)
         in if r \<noteq> [] \<and> hd r = CHR ''}'' then Some (JObject [], tl r)
            else (case parse_members k [] r of
                    None \<Rightarrow> None
                  | Some (kvs, r') \<Rightarrow> Some (JObject kvs, r')))
      else if hd s = CHR ''['' then
        (let r = skip_ws (tl s)
         in if r \<noteq> [] \<and> hd r = CHR '']'' then Some (JArray [], tl r)
            else (case parse_elems k [] r of
                    None \<Rightarrow> None
                  | Some (vs, r') \<Rightarrow> Some (JArray vs, r')))
      else if prefix ''null'' s then Some (JNull, drop 4 s)
      else if prefix ''true'' s then Some (JBool True, drop 4 s)
      else if prefix ''false'' s then Some (JBool False, drop 5 s)
      else (case scan_number s of
              Some res \<Rightarrow> Some res
            | None \<Rightarrow>
                if prefix ''NaN'' s then Some (JFloat ''NaN'', drop 3 s)
                else if prefix ''Infinity'' s then Some (JFloat ''Infinity'', drop 8 s)
                else if prefix ''-Infinity'' s then Some (JFloat ''-Infinity'', drop 9 s)
                else None))"
| "parse_elems 0 acc s = None"
| "parse_elems (Suc k) acc s =
     (case parse_value k s of
        None \<Rightarrow> None
      | Some (v, r) \<Rightarrow>
          (let r' = skip_ws r
           in if r' = [] then None
              else if hd r' = CHR '']'' then Some (acc @ [v], tl r')
              else if hd r' = CHR '','' then parse_elems k (acc @ [v]) (skip_ws (tl r'))
              else None))"
| "parse_members 0 acc s = None"
| "parse_members (Suc k) acc s =
     (if s = [] \<or> hd s \<noteq> CHR 0x22 then None
      else (case scan_string [] (tl s) of
              None \<Rightarrow> None
            | Some (key, r) \<Rightarrow>
                (let r1 = skip_ws r
                 in if r1 = [] \<or> hd r1 \<noteq> CHR '':'' then None
                    else (case parse_value k (skip_ws (tl r1)) of
                            None \<Rightarrow> None
                          | Some (v, r2) \<Rightarrow>
                              (let r3 = skip_ws r2
                               in if r3 = [] then None
                                  else if hd r3 = CHR ''}'' then Some (acc @ [(key, v)], tl r3)
                                  else if hd r3 = CHR '','' then
                                    parse_members k (acc @ [(key, v)]) (skip_ws (tl r3))
                                  else None)))))"

definition json_loads :: "string \<Rightarrow> py_error + json" where
  "json_loads s =
     (case parse_value (2 * length s + 2) (skip_ws s) of
        None \<Rightarrow> Inl JSONDecodeError
      | Some (v, r) \<Rightarrow> if skip_ws r = [] then Inr v else Inl JSONDecodeError)"

text \<open>
  \<open>json.dumps\<close> with its defaults: separators \<open>", "\<close> and \<open>": "\<close>, and every character
  outside the printable ASCII range escaped.
\<close>

definition hex_digit :: "nat \<Rightarrow> char" where
  "hex_digit k = ''0123456789abcdef'' ! (k mod 16)"

definition escape_char :: "char \<Rightarrow> string" where
  "escape_char c =
     (let n = (of_char c :: nat)
      in if c = CHR 0x22 then [CHR 0x5C, CHR 0x22]
         else if c = CHR 0x5C then [CHR 0x5C, CHR 0x5C]
         else if c = CHR 0x0A then [CHR 0x5C, CHR ''n'']
         else if c = CHR 0x0D then [CHR 0x5C, CHR ''r'']
         else if c = CHR 0x09 then [CHR 0x5C, CHR ''t'']
         else if c = CHR 0x08 then [CHR 0x5C, CHR ''b'']
         else if c = CHR 0x0C then [CHR 0x5C, CHR ''f'']
         else if 32 \<le> n \<and> n \<le> 126 then [c]
         else [CHR 0x5C, CHR ''u'', CHR ''0'', CHR ''0'', hex_digit (n div 16), hex_digit n])"

definition quote_json :: "string \<Rightarrow> string" where
  "quote_json s = CHR 0x22 # concat (map escape_char s) @ [CHR 0x22]"

fun json_dumps :: "json \<Rightarrow> string" where
  "json_dumps JNull = ''null''"
| "json_dumps (JBool b) = (if b then ''true'' else ''false'')"
| "json_dumps (JInt i) = str_int i"
| "json_dumps (JFloat lexeme) = lexeme"
| "json_dumps (JString s) = quote_json s"
| "json_dumps (JArray vs) = ''['' @ join_str '', '' (map json_dumps vs) @ '']''"
| "json_dumps (JObject kvs) =
     ''{'' @ join_str '', '' (map (\<lambda>kv. quote_json (fst kv) @ '': '' @ json_dumps (snd kv)) kvs) @ ''}''"

text \<open>
  \<open>d.get(key, default)\<close>. Only a \<open>dict\<close> has the method; of two items with one key the
  later one is the dict's value.
\<close>

definition py_get :: "json \<Rightarrow> string \<Rightarrow> json \<Rightarrow> py_error + json" where
  "py_get d key dflt =
     (case d of
        JObject kvs \<Rightarrow> Inr (case map_of (rev kvs) key of Some v \<Rightarrow> v | None \<Rightarrow> dflt)
      | _ \<Rightarrow> Inl AttributeError)"

text \<open>Truth value of a JSON value, as \<open>x or y\<close> tests it.\<close>

definition truthy :: "json \<Rightarrow> bool" where
  "truthy v =
     (case v of
        JNull \<Rightarrow> False
      | JBool b \<Rightarrow> b
      | JInt i \<Rightarrow> i \<noteq> 0
      | JFloat lexeme \<Rightarrow>
          list_ex (\<lambda>c. c \<in> set ''123456789N'' \<or> c = CHR ''I'')
            (takeWhile (\<lambda>c. c \<noteq> CHR ''e'' \<and> c \<noteq> CHR ''E'') lexeme)
      | JString s \<Rightarrow> s \<noteq> []
      | JArray vs \<Rightarrow> vs \<noteq> []
      | JObject kvs \<Rightarrow> kvs \<noteq> [])"

text \<open>\<open>d.get(key, default)\<close> on the items of a dict, and \<open>x or y\<close>.\<close>

definition dict_get :: "(string \<times> json) list \<Rightarrow> string \<Rightarrow> json \<Rightarrow> json" where
  "dict_get kvs key dflt = (case map_of (rev kvs) key of Some v \<Rightarrow> v | None \<Rightarrow> dflt)"

definition py_or :: "json \<Rightarrow> json \<Rightarrow> json" where
  "py_or x y = (if truthy x then x else y)"

text \<open>\<open>s.strip(chars)\<close>.\<close>

definition py_strip_chars :: "string \<Rightarrow> string \<Rightarrow> string" where
  "py_strip_chars chars s =
     rev (dropWhile (\<lambda>c. c \<in> set chars) (rev (dropWhile (\<lambda>c. c \<in> set chars) s)))"

subsection \<open>The text of a value\<close>

text \<open>
  \<open>repr\<close> of the values above, which is what \<open>str\<close> gives for every value that is
  not itself a string. A string is quoted with \<open>'\<close>, or with \<open>"\<close> when it contains \<open>'\<close>
  and no \<open>"\<close>; the quote and the backslash are escaped, and so is every character
  that is not printable. A dict shows each key once, at the place of its first item
  and with the value of its last. A float is shown as its lexeme.
\<close>

definition repr_quote :: "string \<Rightarrow> char" where
  "repr_quote s = (if CHR 0x27 \<in> set s \<and> CHR 0x22 \<notin> set s then CHR 0x22 else CHR 0x27)"

definition repr_char :: "char \<Rightarrow> char \<Rightarrow> string" where
  "repr_char q c =
     (let n = (of_char c :: nat)
      in if c = q \<or> c = CHR 0x5C then [CHR 0x5C, c]
         else if c = CHR 0x09 then [CHR 0x5C, CHR ''t'']
         else if c = CHR 0x0A then [CHR 0x5C, CHR ''n'']
         else if c = CHR 0x0D then [CHR 0x5C, CHR ''r'']
         else if n < 32 \<or> n = 127 \<or> (128 \<le> n \<and> n \<le> 160) \<or> n = 173
              then [CHR 0x5C, CHR ''x'', hex_digit (n div 16), hex_digit n]
         else [c])"

definition repr_str :: "string \<Rightarrow> string" where
  "repr_str s = repr_quote s # concat (map (repr_char (repr_quote s)) s) @ [repr_quote s]"

fun dict_set :: "(string \<times> 'v) list \<Rightarrow> string \<Rightarrow> 'v \<Rightarrow> (string \<times> 'v) list" where
  "dict_set [] key v = [(key, v)]"
| "dict_set ((k, v') # kvs) key v =
     (if k = key then (k, v) # kvs else (k, v') # dict_set kvs key v)"

definition dict_items :: "(string \<times> 'v) list \<Rightarrow> (string \<times> 'v) list" where
  "dict_items kvs = foldl (\<lambda>d kv. dict_set d (fst kv) (snd kv)) [] kvs"

fun py_repr :: "json \<Rightarrow> string" where
  "py_repr JNull = ''None''"
| "py_repr (JBool b) = (if b then ''True'' else ''False'')"
| "py_repr (JInt i) = str_int i"
| "py_repr (JFloat lexeme) = lexeme"
| "py_repr (JString s) = repr_str s"
| "py_repr (JArray vs) = ''['' @ join_str '', '' (map py_repr vs) @ '']''"
| "py_repr (JObject kvs) =
     ''{'' @ join_str '', ''
              (map (\<lambda>kv. repr_str (fst kv) @ '': '' @ snd kv)
                 (dict_items (map (\<lambda>kv. (fst kv, py_repr (snd kv))) kvs))) @ ''}''"

section \<open>The workspace guard (tools.py)\<close>

subsection \<open>Paths\<close>

text \<open>
  A \<open>pathlib\<close> path of the POSIX flavour: its root (\<open>""\<close>, \<open>"/"\<close> or \<open>"//"\<close>) and its
  segments. Constructing a path from a string drops empty segments and \<open>"."\<close> and keeps
  \<open>".."\<close>; exactly two leading slashes are a root of their own.
\<close>

datatype path = Path (anchor: string) (segments: "string list")

definition Path_of :: "string \<Rightarrow> path" where
  "Path_of s =
     Path (if prefix ''//'' s \<and> \<not> prefix ''///'' s then ''//''
           else if prefix ''/'' s then ''/'' else [])
          (filter (\<lambda>seg. seg \<noteq> ''.'') (split_on (\<lambda>c. c = CHR ''/'') [] s))"

definition is_absolute :: "path \<Rightarrow> bool" where
  "is_absolute p = (anchor p \<noteq> [])"

text \<open>\<open>a / b\<close>: an absolute right operand replaces the left one.\<close>

definition joinpath :: "path \<Rightarrow> path \<Rightarrow> path" where
  "joinpath a b = (if is_absolute b then b else Path (anchor a) (segments a @ segments b))"

text \<open>\<open>p.parents\<close>: the proper ancestors, nearest first.\<close>

definition parents :: "path \<Rightarrow> path list" where
  "parents p = map (\<lambda>k. Path (anchor p) (take k (segments p))) (rev [0..<length (segments p)])"

definition path_str :: "path \<Rightarrow> string" where
  "path_str p =
     (if anchor p = [] \<and> segments p = [] then ''.''
      else anchor p @ join_str ''/'' (segments p))"

text \<open>\<open>p.relative_to(other)\<close> raises \<open>ValueError\<close> unless \<open>other\<close> is \<open>p\<close> or an ancestor of it.\<close>

definition relative_to :: "path \<Rightarrow> path \<Rightarrow> py_error + path" where
  "relative_to p other =
     (if anchor other = anchor p \<and> prefix (segments other) (segments p)
      then Inr (Path [] (drop (length (segments other)) (segments p)))
      else Inl (ValueError ''not in the subpath''))"

text \<open>
  \<open>Path.resolve()\<close> on a file system without symbolic links: the path is made absolute
  against the working directory of the process and every \<open>".."\<close> removes the segment
  before it (none at the root). The result always has the root \<open>"/"\<close>.
\<close>

definition normalize :: "string list \<Rightarrow> string list" where
  "normalize segs = foldl (\<lambda>acc seg. if seg = ''..'' then butlast acc else acc @ [seg]) [] segs"

definition resolve_lexical :: "string list \<Rightarrow> path \<Rightarrow> path" where
  "resolve_lexical cwd p = Path ''/'' (normalize ((if is_absolute p then [] else cwd) @ segments p))"

subsection \<open>The file system, subprocesses and the host\<close>

text \<open>
  Files are keyed by the segments of their resolved path. A file holds the text that is
  on disk; \<open>Blob\<close> is a file whose bytes are not UTF-8. The root directory always exists.
\<close>

datatype node = Dir | File string | Blob

type_synonym fs = "string list \<Rightarrow> node option"

definition node_at :: "fs \<Rightarrow> string list \<Rightarrow> node option" where
  "node_at files p = (if p = [] then Some Dir else files p)"

definition path_exists :: "fs \<Rightarrow> path \<Rightarrow> bool" where
  "path_exists files p = (node_at files (segments p) \<noteq> None)"

definition is_file :: "fs \<Rightarrow> path \<Rightarrow> bool" where
  "is_file files p =
     (case node_at files (segments p) of Some (File t) \<Rightarrow> True | Some Blob \<Rightarrow> True | _ \<Rightarrow> False)"

text \<open>What \<open>subprocess.run\<close> does: the process completes, is killed at the timeout, or cannot start.\<close>

datatype proc_outcome = Completed int string string | TimeoutExpired | SpawnFailed py_error

text \<open>
  The state that the tools act on: the files, and the log of the subprocesses started
  so far (argument vector and working directory).
\<close>

record world =
  files :: fs
  spawned :: "(string list \<times> string) list"

text \<open>
  The library and operating-system operations that the source calls and does not
  define: path resolution, the platform's line separator, the json library, what a
  subprocess does to the files and what it prints, the order in which \<open>rglob\<close>
  enumerates, the dict that the web sources lead \<open>web_lookup\<close> to for a query, and
  the text that \<open>str\<close> gives for a value that is not a string.
\<close>

record host =
  resolve :: "path \<Rightarrow> path"
  linesep :: string
  loads :: "string \<Rightarrow> py_error + json"
  dumps :: "json \<Rightarrow> string"
  spawn :: "fs \<Rightarrow> string list \<Rightarrow> string \<Rightarrow> int \<Rightarrow> proc_outcome \<times> fs"
  rglob :: "fs \<Rightarrow> path \<Rightarrow> path list"
  fetch_summary :: "string \<Rightarrow> (string \<times> json) list"
  str_value :: "json \<Rightarrow> string"

text \<open>
  A host to run the model on: POSIX, no symbolic links, the process in the directory
  \<open>cwd\<close>, subprocesses that exit with status 0 and print nothing, an empty
  enumeration, web sources that find nothing, and \<open>py_repr\<close> for the text of a value.
\<close>

definition posix_host :: "string list \<Rightarrow> host" where
  "posix_host cwd =
     \<lparr> resolve = resolve_lexical cwd,
       linesep = [CHR 0x0A],
       loads = json_loads,
       dumps = json_dumps,
       spawn = (\<lambda>fls argv dir t. (Completed 0 [] [], fls)),
       rglob = (\<lambda>fls p. []),
       fetch_summary = (\<lambda>q. [(''ok'', JBool False), (''error'', JString ''No web summary found'')]),
       str_value = py_repr \<rparr>"

definition no_files :: fs where
  "no_files = (\<lambda>p. None)"

definition fresh_world :: world where
  "fresh_world = \<lparr> files = no_files, spawned = [] \<rparr>"

subsection \<open>\<open>_resolve_in_workspace\<close>\<close>

definition resolve_in_workspace :: "host \<Rightarrow> path \<Rightarrow> string \<Rightarrow> py_error + path" where
  "resolve_in_workspace h workspace user_path =
     (let candidate = (if \<not> is_absolute (Path_of user_path)
                       then resolve h (joinpath workspace (Path_of user_path))
                       else resolve h (Path_of user_path));
          workspace_resolved = resolve h workspace
      in if candidate \<noteq> workspace_resolved \<and> workspace_resolved \<notin> set (parents candidate)
         then Inl (ValueError ''Path is outside workspace'')
         else Inr candidate)"

section \<open>The tools (tools.py)\<close>

definition ALLOWED_COMMAND_PREFIXES :: "string list" where
  "ALLOWED_COMMAND_PREFIXES =
     [''python'', ''py'', ''git'', ''rg'', ''Get-ChildItem'', ''dir'', ''type'', ''echo'',
      ''Get-Content'']"

text \<open>\<open>sorted\<close> on strings: by code point, so capitals come first.\<close>

fun str_le :: "string \<Rightarrow> string \<Rightarrow> bool" where
  "str_le [] t = True"
| "str_le (c # s) [] = False"
| "str_le (c # s) (d # t) =
     ((of_char c :: nat) < of_char d \<or> (c = d \<and> str_le s t))"

fun insert_sorted :: "string \<Rightarrow> string list \<Rightarrow> string list" where
  "insert_sorted x [] = [x]"
| "insert_sorted x (y # ys) = (if str_le x y then x # y # ys else y # insert_sorted x ys)"

definition py_sorted :: "string list \<Rightarrow> string list" where
  "py_sorted xs = foldr insert_sorted xs []"

definition error_result :: "string \<Rightarrow> json" where
  "error_result msg = JObject [(''ok'', JBool False), (''error'', JString msg)]"

text \<open>
  \<open>first = command.strip().split(maxsplit=1)[0] if command.strip() else ""\<close>.
  Indexing an empty list would raise \<open>IndexError\<close>.
\<close>

definition first_token :: "string \<Rightarrow> py_error + string" where
  "first_token command =
     (if py_strip command \<noteq> []
      then (case py_split_max1 (py_strip command) of
              [] \<Rightarrow> Inl IndexError
            | t # ts \<Rightarrow> Inr t)
      else Inr [])"

definition subprocess_run ::
  "host \<Rightarrow> string list \<Rightarrow> string \<Rightarrow> int \<Rightarrow> world \<Rightarrow> proc_outcome \<times> world" where
  "subprocess_run h argv dir timeout_seconds w =
     (case spawn h (files w) argv dir timeout_seconds of
        (outcome, files') \<Rightarrow>
          (outcome, \<lparr> files = files', spawned = spawned w @ [(argv, dir)] \<rparr>))"

definition run_shell ::
  "host \<Rightarrow> string \<Rightarrow> string \<Rightarrow> int \<Rightarrow> world \<Rightarrow> (py_error + json) \<times> world" where
  "run_shell h command dir timeout_seconds w =
     (case first_token command of
        Inl e \<Rightarrow> (Inl e, w)
      | Inr first \<Rightarrow>
          if first \<noteq> [] \<and> first \<notin> set ALLOWED_COMMAND_PREFIXES then
            (Inr (JObject
               [(''ok'', JBool False),
                (''error'', JString (''Command prefix '' @ [CHR 0x27] @ first @ [CHR 0x27]
                                      @ '' is blocked by allowlist.'')),
                (''allowed_prefixes'', JArray (map JString (py_sorted ALLOWED_COMMAND_PREFIXES)))]),
             w)
          else
            (case subprocess_run h [''powershell'', ''-NoProfile'', ''-Command'', command]
                    dir timeout_seconds w of
               (Completed returncode out err, w') \<Rightarrow>
                 (Inr (JObject
                    [(''ok'', JBool (returncode = 0)),
                     (''returncode'', JInt returncode),
                     (''stdout'', JString (py_tail 8000 out)),
                     (''stderr'', JString (py_tail 8000 err))]), w')
             | (TimeoutExpired, w') \<Rightarrow>
                 (Inr (error_result (''Command timed out after '' @ str_int timeout_seconds @ ''s'')),
                  w')
             | (SpawnFailed e, w') \<Rightarrow> (Inl e, w')))"

subsection \<open>Text files\<close>

text \<open>
  \<open>Path.write_text\<close> and \<open>Path.read_text\<close> open the file in text mode with the default
  \<open>newline=None\<close>: on writing, every line feed becomes the platform's line separator;
  on reading, \<open>"\r\n"\<close> and a lone \<open>"\r"\<close> both become a line feed.
\<close>

definition translate_out :: "string \<Rightarrow> string \<Rightarrow> string" where
  "translate_out sep content = concat (map (\<lambda>c. if c = CHR 0x0A then sep else [c]) content)"

fun universal_newlines :: "string \<Rightarrow> string" where
  "universal_newlines [] = []"
| "universal_newlines [c] = (if c = CHR 0x0D then [CHR 0x0A] else [c])"
| "universal_newlines (c # d # cs) =
     (if c = CHR 0x0D then
        (if d = CHR 0x0A then CHR 0x0A # universal_newlines cs
         else CHR 0x0A # universal_newlines (d # cs))
      else c # universal_newlines (d # cs))"

text \<open>
  \<open>d.mkdir(parents=True, exist_ok=True)\<close>, walking down from the directory \<open>base\<close>:
  a missing directory is created, an existing one is kept, a file in the way is an
  \<open>OSError\<close>.
\<close>

fun mkdir_parents :: "fs \<Rightarrow> string list \<Rightarrow> string list \<Rightarrow> py_error + fs" where
  "mkdir_parents fls base [] = Inr fls"
| "mkdir_parents fls base (seg # segs) =
     (case node_at fls (base @ [seg]) of
        None \<Rightarrow> mkdir_parents (fls(base @ [seg] \<mapsto> Dir)) (base @ [seg]) segs
      | Some Dir \<Rightarrow> mkdir_parents fls (base @ [seg]) segs
      | Some other \<Rightarrow> Inl (OSError ''NotADirectoryError''))"

definition write_text :: "host \<Rightarrow> fs \<Rightarrow> string list \<Rightarrow> string \<Rightarrow> py_error + fs" where
  "write_text h fls p content =
     (if node_at fls p = Some Dir then Inl (OSError ''IsADirectoryError'')
      else if node_at fls (butlast p) \<noteq> Some Dir then Inl (OSError ''FileNotFoundError'')
      else Inr (fls(p \<mapsto> File (translate_out (linesep h) content))))"

definition read_text :: "fs \<Rightarrow> string list \<Rightarrow> py_error + string" where
  "read_text fls p =
     (case node_at fls p of
        None \<Rightarrow> Inl (OSError ''FileNotFoundError'')
      | Some Dir \<Rightarrow> Inl (OSError ''IsADirectoryError'')
      | Some Blob \<Rightarrow> Inl UnicodeDecodeError
      | Some (File stored) \<Rightarrow> Inr (universal_newlines stored))"

subsection \<open>\<open>read_file\<close>, \<open>write_file\<close>, \<open>list_files\<close>, \<open>web_lookup\<close>\<close>

text \<open>
  The handler \<open>except (OSError, UnicodeDecodeError, ValueError)\<close> of \<open>read_file\<close>, which
  catches the same exceptions as \<open>except (OSError, ValueError)\<close> of the other two
  tools: the exception becomes an \<open>ok: false\<close> result, any other one propagates.
\<close>

definition catch_io :: "py_error \<Rightarrow> py_error + json" where
  "catch_io e = (if is_OSError e \<or> is_ValueError e then Inr (error_result (exc_str e)) else Inl e)"

definition read_file :: "host \<Rightarrow> path \<Rightarrow> string \<Rightarrow> world \<Rightarrow> py_error + json" where
  "read_file h workspace user_path w =
     (case resolve_in_workspace h workspace user_path of
        Inl e \<Rightarrow> catch_io e
      | Inr resolved \<Rightarrow>
          if \<not> path_exists (files w) resolved then Inr (error_result ''File does not exist'')
          else (case read_text (files w) (segments resolved) of
                  Inl e \<Rightarrow> catch_io e
                | Inr text \<Rightarrow>
                    Inr (JObject [(''ok'', JBool True),
                                  (''path'', JString (path_str resolved)),
                                  (''content'', JString (py_tail 16000 text))])))"

definition write_file ::
  "host \<Rightarrow> path \<Rightarrow> string \<Rightarrow> string \<Rightarrow> world \<Rightarrow> (py_error + json) \<times> world" where
  "write_file h workspace user_path content w =
     (case resolve_in_workspace h workspace user_path of
        Inl e \<Rightarrow> (catch_io e, w)
      | Inr resolved \<Rightarrow>
          (case mkdir_parents (files w) [] (butlast (segments resolved)) of
             Inl e \<Rightarrow> (catch_io e, w)
           | Inr files1 \<Rightarrow>
               (case write_text h files1 (segments resolved) content of
                  Inl e \<Rightarrow> (catch_io e, w\<lparr>files := files1\<rparr>)
                | Inr files2 \<Rightarrow>
                    (Inr (JObject [(''ok'', JBool True),
                                   (''path'', JString (path_str resolved)),
                                   (''bytes'', JInt (int (utf8_length content)))]),
                     w\<lparr>files := files2\<rparr>))))"

text \<open>The loop of \<open>list_files\<close> over the enumeration, with the files found so far.\<close>

fun collect_files :: "fs \<Rightarrow> path \<Rightarrow> path list \<Rightarrow> string list \<Rightarrow> py_error + string list" where
  "collect_files fls workspace [] found = Inr found"
| "collect_files fls workspace (p # ps) found =
     (if is_file fls p then
        (case relative_to p workspace of
           Inl e \<Rightarrow> Inl e
         | Inr rel \<Rightarrow>
             if length (found @ [path_str rel]) \<ge> 200 then Inr (found @ [path_str rel])
             else collect_files fls workspace ps (found @ [path_str rel]))
      else if length found \<ge> 200 then Inr found
      else collect_files fls workspace ps found)"

definition list_files :: "host \<Rightarrow> path \<Rightarrow> string \<Rightarrow> world \<Rightarrow> py_error + json" where
  "list_files h workspace user_path w =
     (case resolve_in_workspace h workspace user_path of
        Inl e \<Rightarrow> catch_io e
      | Inr resolved \<Rightarrow>
          if \<not> path_exists (files w) resolved then Inr (error_result ''Path does not exist'')
          else (case collect_files (files w) workspace (rglob h (files w) resolved) [] of
                  Inl e \<Rightarrow> catch_io e
                | Inr found \<Rightarrow>
                    Inr (JObject [(''ok'', JBool True), (''files'', JArray (map JString found))])))"

text \<open>
  \<open>web_lookup\<close>: an empty query is refused; otherwise the function returns the dict
  that its two network sources lead to (every exception of theirs is caught inside).
\<close>

definition web_lookup :: "host \<Rightarrow> string \<Rightarrow> (string \<times> json) list" where
  "web_lookup h query =
     (if py_strip query = [] then [(''ok'', JBool False), (''error'', JString ''Query is empty'')]
      else fetch_summary h (py_strip query))"

subsection \<open>\<open>execute_tool\<close>\<close>

text \<open>
  The arguments of a tool call are whatever JSON the provider sent, so the tools are
  called with JSON values. What a tool does with a value that is not a string:
  \<open>command.strip()\<close> raises \<open>AttributeError\<close>; \<open>Path(user_path)\<close> raises \<open>TypeError\<close>
  (before the \<open>try\<close> can catch a \<open>ValueError\<close>); \<open>write_text\<close> raises \<open>TypeError\<close> after
  the parent directories have been made; \<open>(query or "").strip()\<close> raises
  \<open>AttributeError\<close> unless the value is falsy.
\<close>

definition run_shell_dyn ::
  "host \<Rightarrow> json \<Rightarrow> string \<Rightarrow> world \<Rightarrow> (py_error + json) \<times> world" where
  "run_shell_dyn h command dir w =
     (case command of
        JString c \<Rightarrow> run_shell h c dir 45 w
      | _ \<Rightarrow> (Inl AttributeError, w))"

definition read_file_dyn :: "host \<Rightarrow> path \<Rightarrow> json \<Rightarrow> world \<Rightarrow> py_error + json" where
  "read_file_dyn h workspace user_path w =
     (case user_path of
        JString p \<Rightarrow> read_file h workspace p w
      | _ \<Rightarrow> Inl TypeError)"

definition write_file_dyn ::
  "host \<Rightarrow> path \<Rightarrow> json \<Rightarrow> json \<Rightarrow> world \<Rightarrow> (py_error + json) \<times> world" where
  "write_file_dyn h workspace user_path content w =
     (case user_path of
        JString p \<Rightarrow>
          (case content of
             JString c \<Rightarrow> write_file h workspace p c w
           | _ \<Rightarrow>
               (case resolve_in_workspace h workspace p of
                  Inl e \<Rightarrow> (catch_io e, w)
                | Inr resolved \<Rightarrow>
                    (case mkdir_parents (files w) [] (butlast (segments resolved)) of
                       Inl e \<Rightarrow> (catch_io e, w)
                     | Inr files1 \<Rightarrow> (Inl TypeError, w\<lparr>files := files1\<rparr>))))
      | _ \<Rightarrow> (Inl TypeError, w))"

definition list_files_dyn :: "host \<Rightarrow> path \<Rightarrow> json \<Rightarrow> world \<Rightarrow> py_error + json" where
  "list_files_dyn h workspace user_path w =
     (case user_path of
        JString p \<Rightarrow> list_files h workspace p w
      | _ \<Rightarrow> Inl TypeError)"

definition web_lookup_dyn :: "host \<Rightarrow> json \<Rightarrow> py_error + json" where
  "web_lookup_dyn h query =
     (if \<not> truthy query then Inr (JObject (web_lookup h []))
      else (case query of
              JString q \<Rightarrow> Inr (JObject (web_lookup h q))
            | _ \<Rightarrow> Inl AttributeError))"

text \<open>
  \<open>execute_tool(name, arguments, workspace)\<close>. The early \<open>return json.dumps(...)\<close> of
  the \<open>run_shell\<close> branch serialises its dict as the final \<open>return\<close> does, so the branch
  yields that dict.
\<close>

definition execute_tool ::
  "host \<Rightarrow> string \<Rightarrow> string \<Rightarrow> path \<Rightarrow> world \<Rightarrow> (py_error + string) \<times> world" where
  "execute_tool h name arguments workspace w =
     (case loads h (if arguments = [] then ''{}'' else arguments) of
        Inl e \<Rightarrow>
          if e = JSONDecodeError then (Inr (dumps h (error_result ''Invalid JSON args'')), w)
          else (Inl e, w)
      | Inr args \<Rightarrow>
          (case
             (if name = ''run_shell'' then
                (case py_get args ''cwd'' JNull of
                   Inl e \<Rightarrow> (Inl e, w)
                 | Inr cwd_arg \<Rightarrow>
                     (case resolve_in_workspace h workspace
                             (case cwd_arg of JString dir \<Rightarrow> dir | _ \<Rightarrow> ''.'') of
                        Inl e \<Rightarrow>
                          (if is_ValueError e then Inr (error_result (exc_str e)) else Inl e, w)
                      | Inr resolved_cwd \<Rightarrow>
                          (case py_get args ''command'' (JString []) of
                             Inl e \<Rightarrow> (Inl e, w)
                           | Inr command \<Rightarrow> run_shell_dyn h command (path_str resolved_cwd) w)))
              else if name = ''read_file'' then
                (case py_get args ''path'' (JString []) of
                   Inl e \<Rightarrow> (Inl e, w)
                 | Inr user_path \<Rightarrow> (read_file_dyn h workspace user_path w, w))
              else if name = ''write_file'' then
                (case py_get args ''path'' (JString []) of
                   Inl e \<Rightarrow> (Inl e, w)
                 | Inr user_path \<Rightarrow>
                     (case py_get args ''content'' (JString []) of
                        Inl e \<Rightarrow> (Inl e, w)
                      | Inr content \<Rightarrow> write_file_dyn h workspace user_path content w))
              else if name = ''list_files'' then
                (case py_get args ''path'' (JString ''.'') of
                   Inl e \<Rightarrow> (Inl e, w)
                 | Inr user_path \<Rightarrow> (list_files_dyn h workspace user_path w, w))
              else if name = ''web_lookup'' then
                (case py_get args ''query'' (JString []) of
                   Inl e \<Rightarrow> (Inl e, w)
                 | Inr query \<Rightarrow> (web_lookup_dyn h query, w))
              else (Inr (error_result (''Unknown tool: '' @ name)), w))
           of
             (Inl e, w') \<Rightarrow> (Inl e, w')
           | (Inr result, w') \<Rightarrow> (Inr (dumps h result), w')))"

section \<open>Conversation memory (memory.py)\<close>

text \<open>
  What is at the path of the store: no file, a file whose bytes are not UTF-8, or a
  file with this text.
\<close>

datatype stored = NoFile | BadUtf8 | FileText string

definition read_all :: "host \<Rightarrow> stored \<Rightarrow> py_error + json" where
  "read_all h f =
     (case f of
        NoFile \<Rightarrow> Inr (JArray [])
      | BadUtf8 \<Rightarrow> Inl UnicodeDecodeError
      | FileText text \<Rightarrow>
          (case loads h text of
             Inl e \<Rightarrow> if e = JSONDecodeError then Inr (JArray []) else Inl e
           | Inr items \<Rightarrow> Inr items))"

text \<open>
  \<open>items[start:]\<close> on what \<open>json.loads\<close> returned: a list and a string can be sliced, a
  dict raises \<open>TypeError\<close> (a \<open>KeyError\<close> from Python 3.12 on), any other value raises
  \<open>TypeError\<close>.
\<close>

definition slice_from :: "json \<Rightarrow> int \<Rightarrow> py_error + json" where
  "slice_from items start =
     (case items of
        JArray xs \<Rightarrow> Inr (JArray (py_slice_from start xs))
      | JString s \<Rightarrow> Inr (JString (py_slice_from start s))
      | _ \<Rightarrow> Inl TypeError)"

definition recent :: "host \<Rightarrow> stored \<Rightarrow> int \<Rightarrow> py_error + json" where
  "recent h f count =
     (case read_all h f of
        Inl e \<Rightarrow> Inl e
      | Inr items \<Rightarrow> slice_from items (- count))"

section \<open>Heuristics and protocol choice (agent.py)\<close>

definition GREETING_WORDS :: "string list" where
  "GREETING_WORDS =
     [''hi'', ''hello'', ''hey'', ''yo'', ''sup'', ''hola'', ''hoi'', ''hallo'', ''heyo'',
      ''goedemorgen'', ''goedemiddag'', ''goedenavond'']"

text \<open>The letters \<open>a\<close> to \<open>z\<close>; the greeting words are made of them.\<close>

definition lower_letter :: "char \<Rightarrow> bool" where
  "lower_letter c = ((97::nat) \<le> of_char c \<and> (of_char c :: nat) \<le> 122)"

text \<open>
  The characters that the pattern \<^verbatim>\<open>r"[^a-zA-Z0-9\\s]"\<close> leaves in place. In the raw
  string the class ends in an escaped backslash followed by the letter \<open>s\<close>, so it
  keeps letters, digits and the backslash, and white space is replaced by a blank
  like every other character.
\<close>

definition smalltalk_keeps :: "char \<Rightarrow> bool" where
  "smalltalk_keeps c =
     (let n = (of_char c :: nat)
      in (97 \<le> n \<and> n \<le> 122) \<or> (65 \<le> n \<and> n \<le> 90) \<or> (48 \<le> n \<and> n \<le> 57) \<or> c = CHR 0x5C)"

definition smalltalk_clean :: "string \<Rightarrow> string" where
  "smalltalk_clean user_input =
     py_strip (map (\<lambda>c. if smalltalk_keeps c then c else CHR 0x20) (py_lower user_input))"

definition maybe_handle_smalltalk :: "string \<Rightarrow> string option" where
  "maybe_handle_smalltalk user_input =
     (let cleaned = smalltalk_clean user_input
      in if cleaned = [] then None
         else
           let words = filter (\<lambda>w. w \<noteq> []) (py_split cleaned)
           in if words = [] then None
              else if length words \<le> 3 \<and> list_all (\<lambda>w. w \<in> set GREETING_WORDS) words then
                (if list_ex (\<lambda>w. w \<in> set [''hoi'', ''hallo'', ''goedemorgen'', ''goedemiddag'',
                                              ''goedenavond'']) words
                 then Some ''Hoi! Ik ben er. Zeg maar wat je wilt doen, dan help ik je direct.''
                 else Some (''Hey! I'' @ [CHR 0x27] @ ''m here. Tell me what you want to build or fix.''))
              else None)"

subsection \<open>The web prefetch\<close>

text \<open>
  The four patterns of \<open>_extract_lookup_query\<close> are built from a literal text, \<^verbatim>\<open>\s+\<close>,
  the group \<^verbatim>\<open>(.+?)\<close>, \<^verbatim>\<open>\??\<close> and \<^verbatim>\<open>$\<close>. \<open>re_match\<close> is \<open>re.match\<close> on such a pattern,
  with the backtracking of the library: \<^verbatim>\<open>\s+\<close> and \<^verbatim>\<open>\??\<close> take the longest match first,
  the group the shortest first; the result is the text of the group. \<open>MoreSpaces\<close> and
  \<open>MoreGroup\<close> are what is left of \<^verbatim>\<open>\s+\<close> and of the group after their first character.
  The dot matches every character but the line feed, and \<^verbatim>\<open>$\<close> matches at the end of the
  text and before a line feed that ends it.
\<close>

datatype re_item = Lit string | Spaces | MoreSpaces | Group | MoreGroup | OptQuestion | EndOfText

fun re_match :: "re_item list \<Rightarrow> string \<Rightarrow> string \<Rightarrow> string option" where
  "re_match [] s g = Some g"
| "re_match (Lit l # ps) s g =
     (if prefix l s then re_match ps (drop (length l) s) g else None)"
| "re_match (Spaces # ps) s g =
     (case s of
        [] \<Rightarrow> None
      | c # r \<Rightarrow> if is_space c then re_match (MoreSpaces # ps) r g else None)"
| "re_match (MoreSpaces # ps) s g =
     (case s of
        [] \<Rightarrow> re_match ps s g
      | c # r \<Rightarrow>
          if is_space c
          then (case re_match (MoreSpaces # ps) r g of
                  Some found \<Rightarrow> Some found
                | None \<Rightarrow> re_match ps s g)
          else re_match ps s g)"
| "re_match (Group # ps) s g =
     (case s of
        [] \<Rightarrow> None
      | c # r \<Rightarrow> if c = CHR 0x0A then None else re_match (MoreGroup # ps) r (g @ [c]))"
| "re_match (MoreGroup # ps) s g =
     (case re_match ps s g of
        Some found \<Rightarrow> Some found
      | None \<Rightarrow>
          (case s of
             [] \<Rightarrow> None
           | c # r \<Rightarrow> if c = CHR 0x0A then None else re_match (MoreGroup # ps) r (g @ [c])))"
| "re_match (OptQuestion # ps) s g =
     (case s of
        [] \<Rightarrow> re_match ps s g
      | c # r \<Rightarrow>
          if c = CHR ''?''
          then (case re_match ps r g of
                  Some found \<Rightarrow> Some found
                | None \<Rightarrow> re_match ps s g)
          else re_match ps s g)"
| "re_match (EndOfText # ps) s g =
     (if s = [] \<or> s = [CHR 0x0A] then re_match ps s g else None)"

definition lookup_patterns :: "re_item list list" where
  "lookup_patterns =
     [[Lit ''wat betekent'', Spaces, Group, OptQuestion, EndOfText],
      [Lit ''what does'', Spaces, Group, Spaces, Lit ''mean'', OptQuestion, EndOfText],
      [Lit ''what is'', Spaces, Group, OptQuestion, EndOfText],
      [Lit ''meaning of'', Spaces, Group, OptQuestion, EndOfText]]"

text \<open>The loop over the patterns: the group of the first pattern that matches.\<close>

fun first_match :: "re_item list list \<Rightarrow> string \<Rightarrow> string option" where
  "first_match [] lowered = None"
| "first_match (pattern # patterns) lowered =
     (case re_match pattern lowered [] of
        Some found \<Rightarrow> Some found
      | None \<Rightarrow> first_match patterns lowered)"

text \<open>
  The characters that the pattern \<^verbatim>\<open>r"[^a-zA-Z0-9\s\-_/]"\<close> leaves in place: letters,
  digits, white space, the hyphen, the underscore and the slash.
\<close>

definition lookup_keeps :: "char \<Rightarrow> bool" where
  "lookup_keeps c =
     (let n = (of_char c :: nat)
      in (97 \<le> n \<and> n \<le> 122) \<or> (65 \<le> n \<and> n \<le> 90) \<or> (48 \<le> n \<and> n \<le> 57)
         \<or> is_space c \<or> c = CHR ''-'' \<or> c = CHR ''_'' \<or> c = CHR ''/'')"

definition extract_lookup_query :: "string \<Rightarrow> string option" where
  "extract_lookup_query user_input =
     (let text = py_strip user_input
      in if text = [] then None
         else
           (case first_match lookup_patterns (py_lower text) of
              Some found \<Rightarrow> Some (py_strip_chars ('' .,!?:;'' @ [CHR 0x22, CHR 0x27]) found)
            | None \<Rightarrow>
                (let cleaned = py_strip (map (\<lambda>c. if lookup_keeps c then c else CHR 0x20) text);
                     words = filter (\<lambda>w. w \<noteq> []) (py_split cleaned)
                 in if words = [] then None
                    else if 1 \<le> length words \<and> length words \<le> 12
                            \<and> \<not> list_all (\<lambda>w. py_lower w \<in> set GREETING_WORDS) words
                         then Some (join_str '' '' words)
                         else None)))"

text \<open>\<open>str(v)\<close>: a string is its own text.\<close>

definition py_str :: "host \<Rightarrow> json \<Rightarrow> string" where
  "py_str h v = (case v of JString s \<Rightarrow> s | _ \<Rightarrow> str_value h v)"

text \<open>
  \<open>_maybe_prefetch_web_context\<close>: the system message about the web lookup, or \<open>None\<close>.
  It raises nothing, \<open>web_lookup\<close> returns a dict whatever happens.
\<close>

definition maybe_prefetch_web_context :: "host \<Rightarrow> string \<Rightarrow> string option" where
  "maybe_prefetch_web_context h user_input =
     (case extract_lookup_query user_input of
        None \<Rightarrow> None
      | Some query \<Rightarrow>
          if query = [] then None
          else
            (let result = web_lookup h query
             in if \<not> truthy (dict_get result ''ok'' JNull) then
                  Some (''Web lookup attempted for unclear term '' @ [CHR 0x27] @ query @ [CHR 0x27]
                        @ '', but failed: ''
                        @ py_str h (py_or (dict_get result ''error'' JNull) (JString ''unknown error'')))
                else
                  (let title = py_str h (py_or (dict_get result ''title'' JNull) (JString query));
                       summary = py_strip (py_str h (py_or (dict_get result ''summary'' JNull)
                                                       (JString [])));
                       source = py_str h (py_or (dict_get result ''source'' JNull) (JString ''web''));
                       url = py_str h (py_or (dict_get result ''url'' JNull) (JString []))
                   in if summary = [] then None
                      else Some (''Web context for possibly unclear term:'' @ [CHR 0x0A]
                                 @ ''- query: '' @ query @ [CHR 0x0A]
                                 @ ''- title: '' @ title @ [CHR 0x0A]
                                 @ ''- source: '' @ source @ [CHR 0x0A]
                                 @ ''- url: '' @ url @ [CHR 0x0A]
                                 @ ''- summary: '' @ summary))))"

subsection \<open>The protocol choice\<close>

text \<open>\<open>_choose_api_mode(mode, base_url)\<close>; \<open>base_url\<close> is a string or \<open>None\<close>.\<close>

definition choose_api_mode :: "string \<Rightarrow> string option \<Rightarrow> string" where
  "choose_api_mode mode base_url =
     (if mode \<in> set [''responses'', ''chat''] then mode
      else (case base_url of
              None \<Rightarrow> ''responses''
            | Some url \<Rightarrow>
                if url = [] then ''responses''
                else if py_in ''localhost'' (py_lower url) \<or> py_in ''127.0.0.1'' (py_lower url)
                     then ''chat''
                     else ''responses''))"

text \<open>
  The selection policy in the words of the specification, to compare with the
  function above: the host of the endpoint is what stands between \<open>"://"\<close> and the
  next \<open>"/"\<close>, \<open>"?"\<close> or \<open>"#"\<close>, without user information and port; it is a loopback
  address when it is \<open>localhost\<close>, \<open>::1\<close> or an IPv4 address in \<open>127.0.0.0/8\<close>.
\<close>

fun after_scheme :: "string \<Rightarrow> string" where
  "after_scheme [] = []"
| "after_scheme (c # cs) = (if prefix ''://'' (c # cs) then drop 3 (c # cs) else after_scheme cs)"

definition spec_endpoint_host :: "string \<Rightarrow> string" where
  "spec_endpoint_host url =
     (let rest = (if py_in ''://'' url then after_scheme url else url);
          authority = takeWhile (\<lambda>c. c \<notin> set ''/?#'') rest;
          hostport = (if CHR ''@'' \<in> set authority
                      then rev (takeWhile (\<lambda>c. c \<noteq> CHR ''@'') (rev authority))
                      else authority)
      in if hostport \<noteq> [] \<and> hd hostport = CHR ''[''
         then takeWhile (\<lambda>c. c \<noteq> CHR '']'') (tl hostport)
         else takeWhile (\<lambda>c. c \<noteq> CHR '':'') hostport)"

definition spec_loopback_host :: "string \<Rightarrow> bool" where
  "spec_loopback_host host_name =
     (py_lower host_name = ''localhost'' \<or> host_name = ''::1''
      \<or> (prefix ''127.'' host_name
          \<and> list_all (\<lambda>c. is_digit c \<or> c = CHR ''.'') host_name
          \<and> length (filter (\<lambda>c. c = CHR ''.'') host_name) = 3))"

definition spec_choose_mode :: "string \<Rightarrow> string option \<Rightarrow> string" where
  "spec_choose_mode mode base_url =
     (if mode \<in> set [''responses'', ''chat''] then mode
      else (case base_url of
              None \<Rightarrow> ''responses''
            | Some url \<Rightarrow>
                if url = [] then ''responses''
                else if spec_loopback_host (spec_endpoint_host url) then ''chat''
                else ''responses''))"

section \<open>The turn engine (agent.py)\<close>

definition SYSTEM_PROMPT :: string where
  "SYSTEM_PROMPT =
     ''You are a pragmatic coding agent running on Windows.'' @ [CHR 0x0A]
     @ ''Use tools when needed. Prefer precise, minimal edits.'' @ [CHR 0x0A]
     @ ''Never claim to run commands you did not run.'' @ [CHR 0x0A]
     @ ''Understand both Dutch and English user input, including casual greetings/slang.''
     @ [CHR 0x0A]
     @ ''If a user term is unclear, use web_lookup to infer meaning before answering.''
     @ [CHR 0x0A]"

text \<open>
  A tool call as the provider sends it, the messages of the chat protocol, and the
  message of the first choice of a chat completion (\<open>content\<close> and \<open>tool_calls\<close> may be
  \<open>None\<close>).
\<close>

record tool_call =
  call_id :: string
  call_name :: string
  call_arguments :: string

datatype chat_message =
    SystemMessage string
  | UserMessage string
  | AssistantMessage string "tool_call list"
  | ToolMessage string string

record chat_reply =
  reply_content :: "string option"
  reply_tool_calls :: "tool_call list option"

text \<open>The requests and the response of the stateful protocol.\<close>

datatype responses_request =
    InitialInput "chat_message list"
  | ToolOutputs string "(string \<times> string) list"

record responses_reply =
  response_id :: string
  function_calls :: "tool_call list"
  output_text :: string

text \<open>
  The provider is a state machine of the environment: a request and its state give a
  response and a new state. The engine's state is the provider's state, the world of
  the tools and the number of requests sent to the provider so far.
\<close>

record 'p turn_state =
  provider_state :: 'p
  tool_world :: world
  provider_calls :: nat

type_synonym 'p chat_provider = "'p \<Rightarrow> string \<Rightarrow> chat_message list \<Rightarrow> chat_reply \<times> 'p"

type_synonym 'p responses_provider = "'p \<Rightarrow> string \<Rightarrow> responses_request \<Rightarrow> responses_reply \<times> 'p"

text \<open>
  \<open>item[key]\<close> on a value that the transcript holds: a dict without the key raises
  \<open>KeyError\<close>, and a value that is not a dict raises \<open>TypeError\<close> for a key that is a
  string.
\<close>

definition py_getitem :: "json \<Rightarrow> string \<Rightarrow> py_error + json" where
  "py_getitem item key =
     (case item of
        JObject kvs \<Rightarrow> (case map_of (rev kvs) key of Some v \<Rightarrow> Inr v | None \<Rightarrow> Inl KeyError)
      | _ \<Rightarrow> Inl TypeError)"

text \<open>
  \<open>for item in recent\<close>: a list gives its elements, a string its characters, a dict
  its keys; no other value can be iterated.
\<close>

definition py_iter :: "json \<Rightarrow> py_error + json list" where
  "py_iter v =
     (case v of
        JArray xs \<Rightarrow> Inr xs
      | JString s \<Rightarrow> Inr (map (\<lambda>c. JString [c]) s)
      | JObject kvs \<Rightarrow> Inr (map (\<lambda>kv. JString (fst kv)) (dict_items kvs))
      | _ \<Rightarrow> Inl TypeError)"

text \<open>\<^verbatim>\<open>f"{item['role']}: {item['content']}"\<close>, and the comprehension over the items.\<close>

definition history_line :: "host \<Rightarrow> json \<Rightarrow> py_error + string" where
  "history_line h item =
     (case py_getitem item ''role'' of
        Inl e \<Rightarrow> Inl e
      | Inr role \<Rightarrow>
          (case py_getitem item ''content'' of
             Inl e \<Rightarrow> Inl e
           | Inr content \<Rightarrow> Inr (py_str h role @ '': '' @ py_str h content)))"

fun history_lines :: "host \<Rightarrow> json list \<Rightarrow> py_error + string list" where
  "history_lines h [] = Inr []"
| "history_lines h (item # items) =
     (case history_line h item of
        Inl e \<Rightarrow> Inl e
      | Inr line \<Rightarrow>
          (case history_lines h items of
             Inl e \<Rightarrow> Inl e
           | Inr lines \<Rightarrow> Inr (line # lines)))"

text \<open>
  The first three statements after the smalltalk check, in both variants of the
  engine: \<open>memory.recent(8)\<close>, the history lines and their join. \<open>memory\<close> is what is at
  the path of the store when the turn runs. Every exception of these statements
  leaves \<open>run_turn_chat\<close> and \<open>run_turn_responses\<close>, which catch nothing.
\<close>

definition history_block :: "host \<Rightarrow> stored \<Rightarrow> py_error + string" where
  "history_block h memory =
     (case recent h memory 8 of
        Inl e \<Rightarrow> Inl e
      | Inr recent_items \<Rightarrow>
          (case py_iter recent_items of
             Inl e \<Rightarrow> Inl e
           | Inr items \<Rightarrow>
               (case history_lines h items of
                  Inl e \<Rightarrow> Inl e
                | Inr lines \<Rightarrow> Inr (join_str [CHR 0x0A] lines))))"

text \<open>The input assembled for the model from the history block and the web context.\<close>

definition initial_messages ::
  "path \<Rightarrow> string \<Rightarrow> string option \<Rightarrow> string \<Rightarrow> chat_message list" where
  "initial_messages workspace block web_context user_input =
     [SystemMessage SYSTEM_PROMPT,
      SystemMessage (''Workspace: '' @ path_str workspace),
      SystemMessage (''Recent memory:'' @ [CHR 0x0A] @ block)]
     @ (case web_context of
          None \<Rightarrow> []
        | Some ctx \<Rightarrow> if ctx = [] then [] else [SystemMessage ctx])
     @ [UserMessage user_input]"

text \<open>
  The inner loop over the requested calls, in the provider's order: the outputs,
  each with the identifier of its call. An exception of \<open>execute_tool\<close> ends the loop
  and propagates.
\<close>

fun run_tool_calls ::
  "host \<Rightarrow> path \<Rightarrow> tool_call list \<Rightarrow> world \<Rightarrow> (py_error + (string \<times> string) list) \<times> world" where
  "run_tool_calls h workspace [] w = (Inr [], w)"
| "run_tool_calls h workspace (call # calls) w =
     (case execute_tool h (call_name call) (call_arguments call) workspace w of
        (Inl e, w') \<Rightarrow> (Inl e, w')
      | (Inr out, w') \<Rightarrow>
          (case run_tool_calls h workspace calls w' of
             (Inl e, w'') \<Rightarrow> (Inl e, w'')
           | (Inr outs, w'') \<Rightarrow> (Inr ((call_id call, out) # outs), w'')))"

text \<open>\<open>message.tool_calls or []\<close> and \<open>message.content or ""\<close>.\<close>

definition requested_calls :: "chat_reply \<Rightarrow> tool_call list" where
  "requested_calls message =
     (case reply_tool_calls message of None \<Rightarrow> [] | Some calls \<Rightarrow> calls)"

definition reply_text :: "chat_reply \<Rightarrow> string" where
  "reply_text message = (case reply_content message of None \<Rightarrow> [] | Some text \<Rightarrow> text)"

text \<open>\<open>for _ in range(n)\<close> of \<open>run_turn_chat\<close>, with the message returned after the loop.\<close>

fun chat_rounds ::
  "nat \<Rightarrow> host \<Rightarrow> 'p chat_provider \<Rightarrow> string \<Rightarrow> path \<Rightarrow> chat_message list \<Rightarrow> 'p turn_state
     \<Rightarrow> (py_error + string) \<times> 'p turn_state" where
  "chat_rounds 0 h create model workspace messages st =
     (Inr ''Stopped after too many tool iterations.'', st)"
| "chat_rounds (Suc n) h create model workspace messages st =
     (case create (provider_state st) model messages of
        (message, p') \<Rightarrow>
          (let st1 = st\<lparr>provider_state := p', provider_calls := provider_calls st + 1\<rparr>;
               tool_calls = requested_calls message
           in if tool_calls = [] then (Inr (py_strip (reply_text message)), st1)
              else
                (case run_tool_calls h workspace tool_calls (tool_world st1) of
                   (Inl e, w') \<Rightarrow> (Inl e, st1\<lparr>tool_world := w'\<rparr>)
                 | (Inr outs, w') \<Rightarrow>
                     chat_rounds n h create model workspace
                       (messages
                        @ [AssistantMessage (reply_text message) tool_calls]
                        @ map (\<lambda>(cid, out). ToolMessage cid out) outs)
                       (st1\<lparr>tool_world := w'\<rparr>))))"

text \<open>
  \<open>run_turn_chat(client, model, user_input, workspace, memory)\<close>: the smalltalk check,
  then the transcript, the web prefetch and the loop.
\<close>

definition run_turn_chat ::
  "host \<Rightarrow> 'p chat_provider \<Rightarrow> string \<Rightarrow> string \<Rightarrow> path \<Rightarrow> stored \<Rightarrow> 'p turn_state
     \<Rightarrow> (py_error + string) \<times> 'p turn_state" where
  "run_turn_chat h create model user_input workspace memory st =
     (case maybe_handle_smalltalk user_input of
        Some smalltalk \<Rightarrow> (Inr smalltalk, st)
      | None \<Rightarrow>
          (case history_block h memory of
             Inl e \<Rightarrow> (Inl e, st)
           | Inr block \<Rightarrow>
               chat_rounds 12 h create model workspace
                 (initial_messages workspace block (maybe_prefetch_web_context h user_input)
                    user_input) st))"

text \<open>
  \<open>while True\<close> of \<open>run_turn_responses\<close>. The loop has no bound, so the result is an
  option: \<open>None\<close> is a turn that never returns.
\<close>

partial_function (option) responses_loop ::
  "host \<Rightarrow> 'p responses_provider \<Rightarrow> string \<Rightarrow> path \<Rightarrow> responses_reply \<Rightarrow> 'p turn_state
     \<Rightarrow> ((py_error + string) \<times> 'p turn_state) option" where
  "responses_loop h create model workspace response st =
     (if function_calls response = [] then Some (Inr (py_strip (output_text response)), st)
      else
        (case run_tool_calls h workspace (function_calls response) (tool_world st) of
           (Inl e, w') \<Rightarrow> Some (Inl e, st\<lparr>tool_world := w'\<rparr>)
         | (Inr outs, w') \<Rightarrow>
             (case create (provider_state st) model (ToolOutputs (response_id response) outs) of
                (response', p') \<Rightarrow>
                  responses_loop h create model workspace response'
                    (st\<lparr>provider_state := p', tool_world := w',
                        provider_calls := provider_calls st + 1\<rparr>))))"

definition run_turn_responses ::
  "host \<Rightarrow> 'p responses_provider \<Rightarrow> string \<Rightarrow> string \<Rightarrow> path \<Rightarrow> stored \<Rightarrow> 'p turn_state
     \<Rightarrow> ((py_error + string) \<times> 'p turn_state) option" where
  "run_turn_responses h create model user_input workspace memory st =
     (case maybe_handle_smalltalk user_input of
        Some smalltalk \<Rightarrow> Some (Inr smalltalk, st)
      | None \<Rightarrow>
          (case history_block h memory of
             Inl e \<Rightarrow> Some (Inl e, st)
           | Inr block \<Rightarrow>
               (case create (provider_state st) model
                       (InitialInput
                          (initial_messages workspace block
                             (maybe_prefetch_web_context h user_input) user_input)) of
                  (response, p') \<Rightarrow>
                    responses_loop h create model workspace response
                      (st\<lparr>provider_state := p', provider_calls := provider_calls st + 1\<rparr>))))"

subsection \<open>Providers to run the engine on\<close>

text \<open>
  Two providers without state: one asks in every response for a web lookup with
  well-formed arguments, one asks in every response for \<open>read_file\<close> with the
  arguments \<open>null\<close>.
\<close>

definition lookup_provider :: "unit chat_provider" where
  "lookup_provider p model messages =
     (\<lparr> reply_content = None,
        reply_tool_calls = Some [\<lparr> call_id = ''call_1'', call_name = ''web_lookup'',
                                   call_arguments = ''{\"query\": \"isabelle\"}'' \<rparr>] \<rparr>, p)"

definition null_arguments_provider :: "unit chat_provider" where
  "null_arguments_provider p model messages =
     (\<lparr> reply_content = None,
        reply_tool_calls = Some [\<lparr> call_id = ''call_1'', call_name = ''read_file'',
                                   call_arguments = ''null'' \<rparr>] \<rparr>, p)"

definition start_state :: "unit turn_state" where
  "start_state = \<lparr> provider_state = (), tool_world = fresh_world, provider_calls = 0 \<rparr>"

section \<open>Properties of the conversation memory\<close>

lemma py_slice_from_zero: "py_slice_from 0 xs = xs"
  by (simp add: py_slice_from_def)

lemma py_slice_from_Nil: "py_slice_from start [] = []"
  by (simp add: py_slice_from_def)

lemma transcript_parses:
  "read_all (posix_host [])
     (FileText ''[{\"ts\": \"t0\", \"role\": \"user\", \"content\": \"hi\"}, {\"ts\": \"t1\", \"role\": \"assistant\", \"content\": \"Hey\"}]'')
   = Inr (JArray
       [JObject [(''ts'', JString ''t0''), (''role'', JString ''user''), (''content'', JString ''hi'')],
        JObject [(''ts'', JString ''t1''), (''role'', JString ''assistant''),
                 (''content'', JString ''Hey'')]])"
  by code_simp

lemma truncated_transcript_rejected:
  "loads (posix_host []) ''[{\"ts\": \"t0\", \"role'' = Inl JSONDecodeError"
  by code_simp

text \<open>
  C9. \<open>recent\<close> with \<open>count = 0\<close> returns the whole stored transcript, every entry in
  order, because it takes the slice \<open>items[-0:]\<close>: whenever the store reads as the
  list \<open>items\<close>, \<open>recent 0\<close> is that list.
\<close>

theorem recent_zero_returns_all:
  assumes "read_all h f = Inr (JArray items)"
  shows "recent h f 0 = Inr (JArray items)"
  using assms by (simp add: recent_def slice_from_def py_slice_from_zero)

text \<open>The transcript of two entries, read back whole with \<open>count = 0\<close>.\<close>

theorem recent_zero_returns_all_witness:
  "read_all (posix_host [])
     (FileText ''[{\"ts\": \"t0\", \"role\": \"user\", \"content\": \"hi\"}, {\"ts\": \"t1\", \"role\": \"assistant\", \"content\": \"Hey\"}]'')
   = Inr (JArray
       [JObject [(''ts'', JString ''t0''), (''role'', JString ''user''), (''content'', JString ''hi'')],
        JObject [(''ts'', JString ''t1''), (''role'', JString ''assistant''),
                 (''content'', JString ''Hey'')]])
   \<and> recent (posix_host [])
     (FileText ''[{\"ts\": \"t0\", \"role\": \"user\", \"content\": \"hi\"}, {\"ts\": \"t1\", \"role\": \"assistant\", \"content\": \"Hey\"}]'') 0
   = Inr (JArray
       [JObject [(''ts'', JString ''t0''), (''role'', JString ''user''), (''content'', JString ''hi'')],
        JObject [(''ts'', JString ''t1''), (''role'', JString ''assistant''),
                 (''content'', JString ''Hey'')]])"
  using transcript_parses recent_zero_returns_all [OF transcript_parses] by (rule conjI)

text \<open>
  When there is no file, or the text of the file makes \<open>json.loads\<close> raise
  \<open>JSONDecodeError\<close>, \<open>recent\<close> returns the empty list for every count: this is the
  tolerance that \<open>_read_all\<close> implements.
\<close>

lemma recent_unparseable_is_empty:
  assumes "f = NoFile \<or> (\<exists>text. f = FileText text \<and> loads h text = Inl JSONDecodeError)"
  shows "recent h f count = Inr (JArray [])"
  using assms by (auto simp add: recent_def read_all_def slice_from_def py_slice_from_Nil)

text \<open>A transcript cut off in the middle of an entry reads as empty.\<close>

lemma recent_truncated_is_empty:
  "loads (posix_host []) ''[{\"ts\": \"t0\", \"role'' = Inl JSONDecodeError
   \<and> recent (posix_host []) (FileText ''[{\"ts\": \"t0\", \"role'') 8 = Inr (JArray [])"
  using truncated_transcript_rejected
    recent_unparseable_is_empty [of "FileText ''[{\"ts\": \"t0\", \"role''" "posix_host []" 8]
  by simp

text \<open>
  C7. The store is to tolerate a backing file that is not a valid transcript: such a
  file is to read as an empty transcript, and the next \<open>recent\<close> is to return an empty
  sequence. The code does so only when \<open>json.loads\<close> raises. A backing file with the
  text \<open>42\<close> is not a transcript and is valid JSON: \<open>_read_all\<close> returns the number, and
  \<open>recent\<close> raises \<open>TypeError\<close> at its slice instead of returning an empty sequence.
\<close>

theorem recent_raises_on_valid_json:
  "loads (posix_host []) ''42'' = Inr (JInt 42)
   \<and> read_all (posix_host []) (FileText ''42'') = Inr (JInt 42)
   \<and> recent (posix_host []) (FileText ''42'') 8 = Inl TypeError"
  by code_simp

section \<open>Properties of \<open>run_shell\<close>\<close>

lemma dropWhile_all: "list_all P xs \<Longrightarrow> dropWhile P xs = []"
  by (induction xs) auto

lemma py_strip_blank: "list_all is_space s \<Longrightarrow> py_strip s = []"
  by (simp add: py_strip_def dropWhile_all)

lemma py_strip_eq_Nil: "py_strip s = [] \<longleftrightarrow> dropWhile is_space s = []"
proof -
  have "dropWhile is_space (rev t) = [] \<longleftrightarrow> t = []" if "t = [] \<or> \<not> is_space (hd t)" for t
  proof (cases t)
    case Nil then show ?thesis by simp
  next
    case (Cons c cs)
    with that have nc: "\<not> is_space c" by simp
    have "c \<in> set (rev t)" using Cons by simp
    with nc have "dropWhile is_space (rev t) \<noteq> []"
      by (auto simp only: dropWhile_eq_Nil_conv)
    moreover have "t \<noteq> []" using Cons by simp
    ultimately show ?thesis by blast
  qed
  moreover have "dropWhile is_space s = [] \<or> \<not> is_space (hd (dropWhile is_space s))"
    using hd_dropWhile by blast
  ultimately show ?thesis by (simp add: py_strip_def)
qed

text \<open>The stripped string is what remains of the string after its leading blanks, less trailing blanks.\<close>

lemma py_strip_decomp:
  "\<exists>t. dropWhile is_space s = py_strip s @ t \<and> list_all is_space t"
proof -
  define u where "u = dropWhile is_space s"
  have "rev u = takeWhile is_space (rev u) @ dropWhile is_space (rev u)" by simp
  then have "u = rev (dropWhile is_space (rev u)) @ rev (takeWhile is_space (rev u))"
    by (metis rev_append rev_rev_ident)
  moreover have "list_all is_space (rev (takeWhile is_space (rev u)))"
    by (simp add: list_all_iff) (meson set_takeWhileD)
  ultimately show ?thesis unfolding u_def py_strip_def by blast
qed

lemma py_strip_starts: "py_strip s \<noteq> [] \<Longrightarrow> \<not> is_space (hd (py_strip s))"
proof -
  assume ne: "py_strip s \<noteq> []"
  obtain t where t: "dropWhile is_space s = py_strip s @ t" using py_strip_decomp by blast
  have "dropWhile is_space s \<noteq> []" using ne t by simp
  then have "\<not> is_space (hd (dropWhile is_space s))" using hd_dropWhile by blast
  with ne t show ?thesis by simp
qed

lemma takeWhile_nonspace_strip:
  "takeWhile (\<lambda>c. \<not> is_space c) (py_strip s) = takeWhile (\<lambda>c. \<not> is_space c) (dropWhile is_space s)"
proof -
  obtain t where t: "dropWhile is_space s = py_strip s @ t" and sp: "list_all is_space t"
    using py_strip_decomp by blast
  have "takeWhile (\<lambda>c. \<not> is_space c) t = []" using sp by (cases t) auto
  then show ?thesis unfolding t by (simp add: takeWhile_append)
qed

lemma split_max1_head:
  assumes "t \<noteq> []" and "\<not> is_space (hd t)"
  shows "\<exists>ts. py_split_max1 t = takeWhile (\<lambda>c. \<not> is_space c) t # ts"
proof -
  define w where "w = takeWhile (\<lambda>c. \<not> is_space c) t"
  define r where "r = dropWhile is_space (dropWhile (\<lambda>c. \<not> is_space c) t)"
  from assms have dw: "dropWhile is_space t = t"
    by (cases t) simp_all
  have "py_split_max1 t = (if r = [] then [w] else [w, r])"
    by (simp only: py_split_max1_def Let_def dw w_def r_def assms(1) if_False)
  then show ?thesis
    unfolding w_def by (cases "r = []") simp_all
qed

lemma first_token_leading:
  "first_token command = Inr (takeWhile (\<lambda>c. \<not> is_space c) (dropWhile is_space command))"
proof (cases "py_strip command = []")
  case True
  then have dw: "dropWhile is_space command = []" by (simp only: py_strip_eq_Nil)
  have "first_token command = Inr []" by (simp add: first_token_def True)
  moreover have "takeWhile (\<lambda>c. \<not> is_space c) (dropWhile is_space command) = []"
    by (simp only: dw takeWhile.simps)
  ultimately show ?thesis by (simp only:)
next
  case False
  then have "\<not> is_space (hd (py_strip command))" by (rule py_strip_starts)
  with False obtain ts where
    "py_split_max1 (py_strip command) = takeWhile (\<lambda>c. \<not> is_space c) (py_strip command) # ts"
    using split_max1_head by blast
  then have "first_token command = Inr (takeWhile (\<lambda>c. \<not> is_space c) (py_strip command))"
    using False by (simp add: first_token_def)
  then show ?thesis by (simp only: takeWhile_nonspace_strip)
qed

lemma first_token_blank: "list_all is_space command \<Longrightarrow> first_token command = Inr []"
  by (simp add: first_token_def py_strip_blank)

lemma py_sorted_allowed:
  "py_sorted ALLOWED_COMMAND_PREFIXES =
     [''Get-ChildItem'', ''Get-Content'', ''dir'', ''echo'', ''git'', ''py'', ''python'', ''rg'', ''type'']"
  by code_simp

text \<open>
  C2. A command whose leading token (the first piece between white space) is not in
  the allowlist is refused: \<open>run_shell\<close> returns \<open>ok: false\<close> with the sorted allowlist
  attached, the world is unchanged and no subprocess is started.
\<close>

theorem run_shell_blocks_unlisted:
  assumes "first_token command = Inr first" and "first \<noteq> []"
    and "first \<notin> set ALLOWED_COMMAND_PREFIXES"
  shows "run_shell h command dir timeout_seconds w =
           (Inr (JObject
              [(''ok'', JBool False),
               (''error'', JString (''Command prefix '' @ [CHR 0x27] @ first @ [CHR 0x27]
                                     @ '' is blocked by allowlist.'')),
               (''allowed_prefixes'', JArray (map JString (py_sorted ALLOWED_COMMAND_PREFIXES)))]),
            w)
         \<and> spawned (snd (run_shell h command dir timeout_seconds w)) = spawned w"
  using assms by (simp add: run_shell_def)

lemma rm_first: "first_token ''rm -rf /'' = Inr ''rm''"
  by (simp add: first_token_leading is_space_def)

lemma rm_not_allowed: "''rm'' \<notin> set ALLOWED_COMMAND_PREFIXES"
  by (simp add: ALLOWED_COMMAND_PREFIXES_def)

text \<open>\<open>run_shell("rm -rf /", ...)\<close> is refused and starts nothing.\<close>

theorem run_shell_blocks_unlisted_witness:
  "first_token ''rm -rf /'' = Inr ''rm'' \<and> ''rm'' \<noteq> [] \<and> ''rm'' \<notin> set ALLOWED_COMMAND_PREFIXES
   \<and> run_shell (posix_host []) ''rm -rf /'' ''/ws'' 45 fresh_world =
       (Inr (JObject
          [(''ok'', JBool False),
           (''error'', JString (''Command prefix '' @ [CHR 0x27] @ ''rm'' @ [CHR 0x27]
                                 @ '' is blocked by allowlist.'')),
           (''allowed_prefixes'', JArray (map JString
              [''Get-ChildItem'', ''Get-Content'', ''dir'', ''echo'', ''git'', ''py'', ''python'',
               ''rg'', ''type'']))]),
        fresh_world)
   \<and> spawned (snd (run_shell (posix_host []) ''rm -rf /'' ''/ws'' 45 fresh_world)) = []"
  using run_shell_blocks_unlisted [OF rm_first _ rm_not_allowed, of "posix_host []" "''/ws''" 45 fresh_world]
    rm_first rm_not_allowed
  by (simp add: py_sorted_allowed fresh_world_def)

text \<open>
  C10. A command that is empty or consists of white space only has no leading token,
  so the allowlist does not reject it: \<open>run_shell\<close> starts the shell subprocess with
  that command, and its result is what the subprocess gives.
\<close>

theorem run_shell_blank_command_spawns:
  assumes "list_all is_space command"
  shows "spawned (snd (run_shell h command dir timeout_seconds w)) =
           spawned w @ [([''powershell'', ''-NoProfile'', ''-Command'', command], dir)]
         \<and> fst (run_shell h command dir timeout_seconds w) =
           (case fst (spawn h (files w) [''powershell'', ''-NoProfile'', ''-Command'', command]
                        dir timeout_seconds) of
              Completed returncode out err \<Rightarrow>
                Inr (JObject
                   [(''ok'', JBool (returncode = 0)),
                    (''returncode'', JInt returncode),
                    (''stdout'', JString (py_tail 8000 out)),
                    (''stderr'', JString (py_tail 8000 err))])
            | TimeoutExpired \<Rightarrow>
                Inr (error_result (''Command timed out after '' @ str_int timeout_seconds @ ''s''))
            | SpawnFailed e \<Rightarrow> Inl e)"
  using assms
  by (simp add: run_shell_def first_token_blank subprocess_run_def
           split: prod.splits proc_outcome.splits)

text \<open>Three blanks are passed to the shell.\<close>

theorem run_shell_blank_command_spawns_witness:
  "list_all is_space ''   ''
   \<and> spawned (snd (run_shell (posix_host []) ''   '' ''/ws'' 45 fresh_world)) =
       [([''powershell'', ''-NoProfile'', ''-Command'', ''   ''], ''/ws'')]
   \<and> fst (run_shell (posix_host []) ''   '' ''/ws'' 45 fresh_world) =
       Inr (JObject [(''ok'', JBool True), (''returncode'', JInt 0),
                     (''stdout'', JString []), (''stderr'', JString [])])"
proof -
  have blank: "list_all is_space ''   ''" by (simp add: is_space_def)
  show ?thesis
    using blank run_shell_blank_command_spawns [OF blank, of "posix_host []" "''/ws''" 45 fresh_world]
    by (simp add: posix_host_def fresh_world_def py_tail_def)
qed

section \<open>Properties of the protocol choice\<close>

lemma py_in_iff: "py_in needle hay \<longleftrightarrow> (\<exists>a b. hay = a @ needle @ b)"
proof (induction hay)
  case Nil
  then show ?case by auto
next
  case (Cons c cs)
  show ?case
  proof
    assume "py_in needle (c # cs)"
    then consider "prefix needle (c # cs)" | "py_in needle cs" by auto
    then show "\<exists>a b. c # cs = a @ needle @ b"
    proof cases
      case 1
      then obtain b where "c # cs = needle @ b" by (auto simp: prefix_def)
      then have "c # cs = [] @ needle @ b" by simp
      then show ?thesis by blast
    next
      case 2
      with Cons obtain a b where "cs = a @ needle @ b" by auto
      then have "c # cs = (c # a) @ needle @ b" by simp
      then show ?thesis by blast
    qed
  next
    assume "\<exists>a b. c # cs = a @ needle @ b"
    then obtain a b where ab: "c # cs = a @ needle @ b" by auto
    show "py_in needle (c # cs)"
    proof (cases a)
      case Nil
      with ab have "prefix needle (c # cs)" by (simp add: prefix_def)
      then show ?thesis by simp
    next
      case (Cons x a')
      with ab have "cs = a' @ needle @ b" by simp
      with Cons.IH have "py_in needle cs" by blast
      then show ?thesis by simp
    qed
  qed
qed

lemma lower_local_url:
  "py_lower ''http://LocalHost:1234/v1'' = ''http://'' @ ''localhost'' @ '':1234/v1''"
  by code_simp

text \<open>
  C5, as the code has it. An explicit mode (\<open>responses\<close> or \<open>chat\<close>) is returned as it
  is. Otherwise the choice is the stateful style when no endpoint is configured (\<open>None\<close>
  or the empty string), the chat style when the lower-cased endpoint contains
  \<open>localhost\<close> or \<open>127.0.0.1\<close> anywhere, and the stateful style for every other endpoint.
\<close>

theorem choose_api_mode_policy:
  "(mode = ''responses'' \<or> mode = ''chat'' \<longrightarrow> choose_api_mode mode base_url = mode)
   \<and> (mode \<noteq> ''responses'' \<and> mode \<noteq> ''chat'' \<and> (base_url = None \<or> base_url = Some [])
        \<longrightarrow> choose_api_mode mode base_url = ''responses'')
   \<and> (mode \<noteq> ''responses'' \<and> mode \<noteq> ''chat'' \<and> base_url = Some url \<and> url \<noteq> []
        \<longrightarrow> choose_api_mode mode base_url =
              (if (\<exists>a b. py_lower url = a @ ''localhost'' @ b)
                  \<or> (\<exists>a b. py_lower url = a @ ''127.0.0.1'' @ b)
               then ''chat'' else ''responses''))"
  by (auto simp add: choose_api_mode_def py_in_iff)

text \<open>An explicit mode, no endpoint, and a local endpoint written with capitals.\<close>

theorem choose_api_mode_policy_witness:
  "choose_api_mode ''chat'' None = ''chat''
   \<and> choose_api_mode ''auto'' None = ''responses''
   \<and> choose_api_mode ''auto'' (Some ''http://LocalHost:1234/v1'') = ''chat''"
proof -
  have ex: "\<exists>a b. py_lower ''http://LocalHost:1234/v1'' = a @ ''localhost'' @ b"
    using lower_local_url by blast
  show ?thesis
    using choose_api_mode_policy [of "''chat''" None "''x''"]
      choose_api_mode_policy [of "''auto''" None "''x''"]
      choose_api_mode_policy [of "''auto''" "Some ''http://LocalHost:1234/v1''"
        "''http://LocalHost:1234/v1''"]
      ex
    by simp
qed

text \<open>
  C5 as stated fails: the endpoint \<open>https://example.com/localhost\<close> has the host
  \<open>example.com\<close>, which is not a loopback address, so the policy of the specification
  chooses the stateful style; the code finds \<open>localhost\<close> in the path and chooses the
  chat style.
\<close>

theorem choose_api_mode_host_counterexample:
  "spec_endpoint_host ''https://example.com/localhost'' = ''example.com''
   \<and> spec_loopback_host ''example.com'' = False
   \<and> spec_choose_mode ''auto'' (Some ''https://example.com/localhost'') = ''responses''
   \<and> choose_api_mode ''auto'' (Some ''https://example.com/localhost'') = ''chat''"
  by code_simp

text \<open>In the other direction, the IPv6 loopback address is not recognised by the code.\<close>

lemma choose_api_mode_ipv6_loopback:
  "spec_choose_mode ''auto'' (Some ''http://[::1]:1234/v1'') = ''chat''
   \<and> choose_api_mode ''auto'' (Some ''http://[::1]:1234/v1'') = ''responses''"
  by code_simp

section \<open>Properties of the workspace guard\<close>

lemma parents_iff:
  "q \<in> set (parents c) \<longleftrightarrow> anchor q = anchor c \<and> strict_prefix (segments q) (segments c)"
proof
  assume "q \<in> set (parents c)"
  then have "q \<in> (\<lambda>k. Path (anchor c) (take k (segments c))) ` {0..<length (segments c)}"
    by (simp only: parents_def set_map set_rev set_upt)
  then obtain k where k: "k < length (segments c)" and q: "q = Path (anchor c) (take k (segments c))"
    by (elim imageE) simp
  have "prefix (take k (segments c)) (segments c)" by (rule take_is_prefix)
  moreover have "take k (segments c) \<noteq> segments c"
  proof
    assume "take k (segments c) = segments c"
    then have "length (take k (segments c)) = length (segments c)" by (simp only:)
    with k show False by simp
  qed
  ultimately have "strict_prefix (take k (segments c)) (segments c)"
    by (simp only: strict_prefix_def simp_thms)
  then show "anchor q = anchor c \<and> strict_prefix (segments q) (segments c)"
    by (simp only: q path.sel simp_thms)
next
  assume a: "anchor q = anchor c \<and> strict_prefix (segments q) (segments c)"
  then have sp: "strict_prefix (segments q) (segments c)" by (rule conjunct2)
  from sp have both: "prefix (segments q) (segments c) \<and> segments q \<noteq> segments c"
    unfolding strict_prefix_def .
  from both have ne: "segments q \<noteq> segments c" by (rule conjunct2)
  from both have "prefix (segments q) (segments c)" by (rule conjunct1)
  then obtain zs where zs: "segments c = segments q @ zs"
    by (elim prefixE)
  with ne have "zs \<noteq> []" by auto
  with zs have lt: "length (segments q) < length (segments c)" by simp
  have tk: "take (length (segments q)) (segments c) = segments q"
    by (simp only: zs append_eq_conv_conj [symmetric] take_all_iff take_append) simp
  have qeq: "q = Path (anchor c) (take (length (segments q)) (segments c))"
    using a by (simp only: tk) (cases q, simp)
  have mem: "length (segments q) \<in> {0..<length (segments c)}" using lt by simp
  have "q \<in> (\<lambda>k. Path (anchor c) (take k (segments c))) ` {0..<length (segments c)}"
    using qeq mem by (rule image_eqI)
  then show "q \<in> set (parents c)"
    by (simp only: parents_def set_map set_rev set_upt)
qed

lemma resolve_in_workspace_general:
  "resolve_in_workspace h workspace user_path =
     (let candidate = resolve h (if is_absolute (Path_of user_path) then Path_of user_path
                                 else joinpath workspace (Path_of user_path));
          root = resolve h workspace
      in if candidate = root
            \<or> (anchor root = anchor candidate \<and> strict_prefix (segments root) (segments candidate))
         then Inr candidate else Inl (ValueError ''Path is outside workspace''))"
  by (auto simp add: resolve_in_workspace_def Let_def parents_iff)

lemma normalize_append:
  "normalize (xs @ ys) =
     foldl (\<lambda>acc seg. if seg = ''..'' then butlast acc else acc @ [seg]) (normalize xs) ys"
  by (simp add: normalize_def)

lemma Path_of_parent_x: "Path_of ''../x'' = Path [] [''..'', ''x'']"
  by (simp add: Path_of_def)

lemma Path_of_sub_y: "Path_of ''sub/y'' = Path [] [''sub'', ''y'']"
  by (simp add: Path_of_def)

lemma resolve_lexical_join:
  assumes "anchor rel = []"
  shows "resolve_lexical cwd (joinpath workspace rel) =
           Path ''/'' (foldl (\<lambda>acc seg. if seg = ''..'' then butlast acc else acc @ [seg])
                        (segments (resolve_lexical cwd workspace)) (segments rel))"
  using assms
  by (simp add: resolve_lexical_def joinpath_def is_absolute_def normalize_append [symmetric])

lemma confine_parent_x:
  "resolve_in_workspace (posix_host cwd) workspace ''../x'' =
     (let root = segments (resolve_lexical cwd workspace)
      in if root = [] \<or> last root = ''x'' then Inr (Path ''/'' (butlast root @ [''x'']))
         else Inl (ValueError ''Path is outside workspace''))"
proof -
  define root where "root = segments (resolve_lexical cwd workspace)"
  have wr: "resolve_lexical cwd workspace = Path ''/'' root"
    by (simp add: root_def resolve_lexical_def)
  have cand: "resolve_lexical cwd (joinpath workspace (Path [] [''..'', ''x''])) =
                Path ''/'' (butlast root @ [''x''])"
    by (simp add: resolve_lexical_join root_def)
  have eq: "butlast root @ [''x''] = root \<longleftrightarrow> root \<noteq> [] \<and> last root = ''x''"
    by (cases root rule: rev_cases) auto
  have sp: "strict_prefix root (butlast root @ [''x'']) \<longleftrightarrow> root = []"
  proof (cases root rule: rev_cases)
    case Nil
    then show ?thesis by simp
  next
    case (snoc ys y)
    have "\<not> strict_prefix (ys @ [y]) (ys @ [''x''])"
      by (auto simp: strict_prefix_def prefix_def)
    with snoc show ?thesis by simp
  qed
  show ?thesis
    unfolding resolve_in_workspace_general Let_def root_def [symmetric]
    by (simp add: posix_host_def Path_of_parent_x is_absolute_def wr cand eq sp)
qed

lemma confine_sub_y:
  "resolve_in_workspace (posix_host cwd) workspace ''sub/y'' =
     Inr (Path ''/'' (segments (resolve_lexical cwd workspace) @ [''sub'', ''y'']))"
proof -
  define root where "root = segments (resolve_lexical cwd workspace)"
  have wr: "resolve_lexical cwd workspace = Path ''/'' root"
    by (simp add: root_def resolve_lexical_def)
  have cand: "resolve_lexical cwd (joinpath workspace (Path [] [''sub'', ''y''])) =
                Path ''/'' (root @ [''sub'', ''y''])"
    by (simp add: resolve_lexical_join root_def)
  have sp: "strict_prefix root (root @ [''sub'', ''y''])"
    by (simp add: strict_prefix_def)
  show ?thesis
    unfolding resolve_in_workspace_general Let_def root_def [symmetric]
    by (simp add: posix_host_def Path_of_sub_y is_absolute_def wr cand sp)
qed

text \<open>
  C1, as the code has it. For every host, \<open>_resolve_in_workspace\<close> succeeds exactly
  when the resolved candidate is the resolved workspace or a descendant of it, a
  relative path being joined to the workspace first, and it then returns the
  candidate. Without symbolic links, \<open>"../x"\<close> is refused unless the resolved
  workspace is the root directory or a directory named \<open>x\<close> (the candidate is then
  inside the workspace and is returned), and \<open>"sub/y"\<close> is accepted for every
  workspace and yields the resolved workspace extended by \<open>sub/y\<close>.
\<close>

theorem confine_contract:
  "resolve_in_workspace h workspace user_path =
     (let candidate = resolve h (if is_absolute (Path_of user_path) then Path_of user_path
                                 else joinpath workspace (Path_of user_path));
          root = resolve h workspace
      in if candidate = root
            \<or> (anchor root = anchor candidate \<and> strict_prefix (segments root) (segments candidate))
         then Inr candidate else Inl (ValueError ''Path is outside workspace''))
   \<and> resolve_in_workspace (posix_host cwd) workspace ''../x'' =
     (let root = segments (resolve_lexical cwd workspace)
      in if root = [] \<or> last root = ''x'' then Inr (Path ''/'' (butlast root @ [''x'']))
         else Inl (ValueError ''Path is outside workspace''))
   \<and> resolve_in_workspace (posix_host cwd) workspace ''sub/y'' =
     Inr (Path ''/'' (segments (resolve_lexical cwd workspace) @ [''sub'', ''y'']))"
  using resolve_in_workspace_general confine_parent_x confine_sub_y by blast

lemma resolve_home_agent:
  "resolve_lexical [] (Path ''/'' [''home'', ''agent'']) = Path ''/'' [''home'', ''agent'']"
  by (simp add: resolve_lexical_def normalize_def is_absolute_def)

text \<open>The workspace \<open>/home/agent\<close>: \<open>"../x"\<close> is refused and \<open>"sub/y"\<close> is accepted.\<close>

theorem confine_contract_witness:
  "resolve_in_workspace (posix_host []) (Path ''/'' [''home'', ''agent'']) ''../x'' =
     Inl (ValueError ''Path is outside workspace'')
   \<and> resolve_in_workspace (posix_host []) (Path ''/'' [''home'', ''agent'']) ''sub/y'' =
     Inr (Path ''/'' [''home'', ''agent'', ''sub'', ''y''])"
proof -
  note c = confine_contract [of "posix_host []" "Path ''/'' [''home'', ''agent'']" "''sub/y''" "[]"]
  show ?thesis
    using c [THEN conjunct2, THEN conjunct1] c [THEN conjunct2, THEN conjunct2]
    by (simp add: resolve_home_agent Let_def)
qed

text \<open>
  C1 as stated fails: in the workspace \<open>/home/x\<close> the path \<open>"../x"\<close> resolves to the
  workspace itself, and in the workspace \<open>/\<close> it resolves to \<open>/x\<close>; both are accepted.
\<close>

theorem confine_parent_x_counterexample:
  "resolve_in_workspace (posix_host []) (Path ''/'' [''home'', ''x'']) ''../x'' =
     Inr (Path ''/'' [''home'', ''x''])
   \<and> resolve_in_workspace (posix_host []) (Path ''/'' []) ''../x'' = Inr (Path ''/'' [''x''])"
  by (simp add: confine_parent_x resolve_lexical_def normalize_def is_absolute_def Let_def)

section \<open>Properties of \<open>write_file\<close> and \<open>read_file\<close>\<close>





lemma py_tail_short: "length s \<le> n \<Longrightarrow> py_tail n s = s"
  by (simp add: py_tail_def)

lemma py_tail_long: "n \<le> length s \<Longrightarrow> length (py_tail n s) = n"
  by (simp add: py_tail_def)













section \<open>Properties of \<open>execute_tool\<close>\<close>

lemma loads_null: "json_loads ''null'' = Inr JNull"
  by code_simp

lemma loads_empty_array: "json_loads ''[]'' = Inr (JArray [])"
  by code_simp

lemma loads_query: "json_loads ''{\"query\": \"isabelle\"}'' = Inr (JObject [(''query'', JString ''isabelle'')])"
  by code_simp

lemma loads_posix: "loads (posix_host cwd) = json_loads"
  by (simp add: posix_host_def)

lemma execute_tool_invalid_json:
  assumes "loads h (if arguments = [] then ''{}'' else arguments) = Inl JSONDecodeError"
  shows "execute_tool h name arguments workspace w =
           (Inr (dumps h (error_result ''Invalid JSON args'')), w)"
  using assms by (simp add: execute_tool_def)

lemma execute_tool_unknown:
  assumes "loads h (if arguments = [] then ''{}'' else arguments) = Inr args"
    and "name \<notin> set [''run_shell'', ''read_file'', ''write_file'', ''list_files'', ''web_lookup'']"
  shows "execute_tool h name arguments workspace w =
           (Inr (dumps h (error_result (''Unknown tool: '' @ name))), w)"
  using assms by (simp add: execute_tool_def)

lemma py_get_not_a_dict:
  assumes "\<forall>kvs. args \<noteq> JObject kvs"
  shows "py_get args key dflt = Inl AttributeError"
  using assms by (cases args) (simp_all add: py_get_def)

lemma execute_tool_run_shell_raises:
  assumes "loads h (if arguments = [] then ''{}'' else arguments) = Inr args"
    and "py_get args ''cwd'' JNull = Inl e"
  shows "execute_tool h ''run_shell'' arguments workspace w = (Inl e, w)"
  unfolding execute_tool_def using assms by simp

lemma execute_tool_read_file_raises:
  assumes "loads h (if arguments = [] then ''{}'' else arguments) = Inr args"
    and "py_get args ''path'' (JString []) = Inl e"
  shows "execute_tool h ''read_file'' arguments workspace w = (Inl e, w)"
  unfolding execute_tool_def using assms by simp

lemma execute_tool_write_file_raises:
  assumes "loads h (if arguments = [] then ''{}'' else arguments) = Inr args"
    and "py_get args ''path'' (JString []) = Inl e"
  shows "execute_tool h ''write_file'' arguments workspace w = (Inl e, w)"
  unfolding execute_tool_def using assms by simp

lemma execute_tool_list_files_raises:
  assumes "loads h (if arguments = [] then ''{}'' else arguments) = Inr args"
    and "py_get args ''path'' (JString ''.'') = Inl e"
  shows "execute_tool h ''list_files'' arguments workspace w = (Inl e, w)"
  unfolding execute_tool_def using assms by simp

lemma execute_tool_web_lookup_raises:
  assumes "loads h (if arguments = [] then ''{}'' else arguments) = Inr args"
    and "py_get args ''query'' (JString []) = Inl e"
  shows "execute_tool h ''web_lookup'' arguments workspace w = (Inl e, w)"
  unfolding execute_tool_def using assms by simp

text \<open>
  Arguments that are valid JSON and not an object make each of the five tools raise
  \<open>AttributeError\<close>: the value has no method \<open>get\<close>.
\<close>

lemma execute_tool_not_a_dict:
  assumes "loads h (if arguments = [] then ''{}'' else arguments) = Inr args"
    and "\<forall>kvs. args \<noteq> JObject kvs"
  shows "execute_tool h ''run_shell'' arguments workspace w = (Inl AttributeError, w)"
    and "execute_tool h ''read_file'' arguments workspace w = (Inl AttributeError, w)"
    and "execute_tool h ''write_file'' arguments workspace w = (Inl AttributeError, w)"
    and "execute_tool h ''list_files'' arguments workspace w = (Inl AttributeError, w)"
    and "execute_tool h ''web_lookup'' arguments workspace w = (Inl AttributeError, w)"
  using execute_tool_run_shell_raises [OF assms(1) py_get_not_a_dict [OF assms(2)]]
    execute_tool_read_file_raises [OF assms(1) py_get_not_a_dict [OF assms(2)]]
    execute_tool_write_file_raises [OF assms(1) py_get_not_a_dict [OF assms(2)]]
    execute_tool_list_files_raises [OF assms(1) py_get_not_a_dict [OF assms(2)]]
    execute_tool_web_lookup_raises [OF assms(1) py_get_not_a_dict [OF assms(2)]]
  by blast+

text \<open>
  C4 at its failing inputs: the tool \<open>read_file\<close> called with the arguments \<open>[]\<close>, and
  the tool \<open>run_shell\<close> called with the arguments \<open>null\<close>. Both argument strings are
  valid JSON; \<open>execute_tool\<close> raises \<open>AttributeError\<close> instead of returning a result.
\<close>

theorem execute_tool_raises_on_non_object:
  "execute_tool (posix_host []) ''read_file'' ''[]'' (Path ''/'' [''ws'']) fresh_world =
     (Inl AttributeError, fresh_world)
   \<and> execute_tool (posix_host []) ''run_shell'' ''null'' (Path ''/'' [''ws'']) fresh_world =
     (Inl AttributeError, fresh_world)"
proof -
  have a: "loads (posix_host []) (if ''[]'' = [] then ''{}'' else ''[]'') = Inr (JArray [])"
    by (simp add: loads_posix loads_empty_array)
  have b: "loads (posix_host []) (if ''null'' = [] then ''{}'' else ''null'') = Inr JNull"
    by (simp add: loads_posix loads_null)
  have na: "\<forall>kvs. JArray [] \<noteq> JObject kvs" and nn: "\<forall>kvs. JNull \<noteq> JObject kvs"
    by simp_all
  show ?thesis
    using execute_tool_not_a_dict(2) [OF a na] execute_tool_not_a_dict(1) [OF b nn]
    by (rule conjI)
qed

section \<open>Properties of the chat loop\<close>

lemma chat_rounds_final:
  assumes "create (provider_state st) model msgs = (message, p')"
    and "requested_calls message = []"
  shows "chat_rounds (Suc n) h create model workspace msgs st =
           (Inr (py_strip (reply_text message)),
            st\<lparr>provider_state := p', provider_calls := provider_calls st + 1\<rparr>)"
  using assms by (simp add: Let_def)

lemma chat_rounds_raise:
  assumes "create (provider_state st) model msgs = (message, p')"
    and "requested_calls message \<noteq> []"
    and "run_tool_calls h workspace (requested_calls message) (tool_world st) = (Inl e, w')"
  shows "chat_rounds (Suc n) h create model workspace msgs st =
           (Inl e, st\<lparr>provider_state := p', provider_calls := provider_calls st + 1,
                      tool_world := w'\<rparr>)"
  using assms by (simp add: Let_def)

lemma chat_rounds_next:
  assumes "create (provider_state st) model msgs = (message, p')"
    and "requested_calls message \<noteq> []"
    and "run_tool_calls h workspace (requested_calls message) (tool_world st) = (Inr outs, w')"
  shows "chat_rounds (Suc n) h create model workspace msgs st =
           chat_rounds n h create model workspace
             (msgs @ [AssistantMessage
                        (reply_text message)
                        (requested_calls message)]
                   @ map (\<lambda>(cid, out). ToolMessage cid out) outs)
             (st\<lparr>provider_state := p', provider_calls := provider_calls st + 1,
                 tool_world := w'\<rparr>)"
  using assms by (simp add: Let_def)

lemma chat_rounds_bound:
  "provider_calls (snd (chat_rounds n h create model workspace msgs st)) \<le> provider_calls st + n"
proof (induction n arbitrary: msgs st)
  case 0
  show ?case by simp
next
  case (Suc n)
  obtain message p' where cr: "create (provider_state st) model msgs = (message, p')"
    by (cases "create (provider_state st) model msgs")
  show ?case
  proof (cases "requested_calls message = []")
    case True
    show ?thesis by (simp only: chat_rounds_final [where create = create and st = st, OF cr True]) simp
  next
    case False
    obtain res w' where rt:
      "run_tool_calls h workspace (requested_calls message) (tool_world st) = (res, w')"
      by (cases "run_tool_calls h workspace (requested_calls message) (tool_world st)")
    show ?thesis
    proof (cases res)
      case (Inl e)
      show ?thesis by (simp only: chat_rounds_raise [where create = create and st = st, OF cr False rt [unfolded Inl]]) simp
    next
      case (Inr outs)
      have "provider_calls (snd (chat_rounds n h create model workspace
              (msgs @ [AssistantMessage
                        (reply_text message)
                        (requested_calls message)]
                   @ map (\<lambda>(cid, out). ToolMessage cid out) outs)
              (st\<lparr>provider_state := p', provider_calls := provider_calls st + 1,
                  tool_world := w'\<rparr>)))
            \<le> provider_calls (st\<lparr>provider_state := p', provider_calls := provider_calls st + 1,
                  tool_world := w'\<rparr>) + n"
        by (rule Suc.IH)
      then show ?thesis by (simp only: chat_rounds_next [where create = create and st = st, OF cr False rt [unfolded Inr]]) simp
    qed
  qed
qed

lemma chat_rounds_stops:
  assumes calls: "\<forall>p m ms. requested_calls (fst (create p m ms)) \<noteq> []"
    and ok: "\<forall>p m ms w. \<not> isl (fst (run_tool_calls h workspace
                                       (requested_calls (fst (create p m ms))) w))"
  shows "fst (chat_rounds n h create model workspace msgs st) =
           Inr ''Stopped after too many tool iterations.''
         \<and> provider_calls (snd (chat_rounds n h create model workspace msgs st)) =
           provider_calls st + n"
proof (induction n arbitrary: msgs st)
  case 0
  show ?case by simp
next
  case (Suc n)
  obtain message p' where cr: "create (provider_state st) model msgs = (message, p')"
    by (cases "create (provider_state st) model msgs")
  have msg: "message = fst (create (provider_state st) model msgs)" by (simp add: cr)
  have ne: "requested_calls message \<noteq> []" unfolding msg using calls by blast
  obtain res w' where rt:
    "run_tool_calls h workspace (requested_calls message) (tool_world st) = (res, w')"
    by (cases "run_tool_calls h workspace (requested_calls message) (tool_world st)")
  have "\<not> isl (fst (run_tool_calls h workspace (requested_calls message) (tool_world st)))"
    unfolding msg using ok by blast
  then obtain outs where res: "res = Inr outs" by (cases res) (simp_all add: rt)
  let ?st' = "st\<lparr>provider_state := p', provider_calls := provider_calls st + 1,
                   tool_world := w'\<rparr>"
  let ?msgs' = "msgs @ [AssistantMessage
                        (reply_text message)
                        (requested_calls message)]
                   @ map (\<lambda>(cid, out). ToolMessage cid out) outs"
  have ih: "fst (chat_rounds n h create model workspace ?msgs' ?st') =
             Inr ''Stopped after too many tool iterations.''
           \<and> provider_calls (snd (chat_rounds n h create model workspace ?msgs' ?st')) =
             provider_calls ?st' + n"
    by (rule Suc.IH)
  then show ?case by (simp only: chat_rounds_next [where create = create and st = st, OF cr ne rt [unfolded res]]) simp
qed


lemma execute_tool_web_lookup_string:
  assumes "loads h (if arguments = [] then ''{}'' else arguments) =
             Inr (JObject [(''query'', JString q)])"
  shows "execute_tool h ''web_lookup'' arguments workspace w =
           (Inr (dumps h (JObject (web_lookup h q))), w)"
  unfolding execute_tool_def using assms
  by (simp add: py_get_def web_lookup_dyn_def truthy_def)

lemma not_smalltalk: "maybe_handle_smalltalk ''list the files'' = None"
  by code_simp

lemma smalltalk_hi:
  "maybe_handle_smalltalk ''hi'' =
     Some (''Hey! I'' @ [CHR 0x27] @ ''m here. Tell me what you want to build or fix.'')"
  by code_simp

text \<open>The query of the web prefetch and the context it gives, on some inputs.\<close>

lemma extract_lookup_query_examples:
  "extract_lookup_query ''wat betekent  gezellig?'' = Some ''gezellig''"
  "extract_lookup_query ''What does foo  mean?'' = Some ''foo''"
  "extract_lookup_query ''what does  mean'' = Some ''what does mean''"
  "extract_lookup_query ''what is ...'' = Some []"
  "extract_lookup_query ''list the files'' = Some ''list the files''"
  "extract_lookup_query ''hi hello'' = None"
  by code_simp+

lemma maybe_prefetch_web_context_examples:
  "maybe_prefetch_web_context (posix_host []) ''what is ...'' = None"
  "maybe_prefetch_web_context (posix_host []) ''list the files'' =
     Some (''Web lookup attempted for unclear term '' @ [CHR 0x27] @ ''list the files''
           @ [CHR 0x27] @ '', but failed: No web summary found'')"
  by code_simp+

lemma py_repr_examples:
  "py_repr (JArray [JInt 1, JString ''a'', JNull, JBool True]) =
     ''[1, '' @ [CHR 0x27] @ ''a'' @ [CHR 0x27] @ '', None, True]''"
  "py_repr (JObject [(''a'', JInt 1), (''b'', JInt 2), (''a'', JInt 3)]) =
     ''{'' @ [CHR 0x27] @ ''a'' @ [CHR 0x27] @ '': 3, '' @ [CHR 0x27] @ ''b'' @ [CHR 0x27] @ '': 2}''"
  by code_simp+

text \<open>The history block of an absent file and of a transcript of two entries.\<close>

lemma history_block_no_file: "history_block h NoFile = Inr []"
  by (simp add: history_block_def recent_def read_all_def slice_from_def py_slice_from_Nil
        py_iter_def)

lemma history_block_transcript:
  "history_block (posix_host [])
     (FileText ''[{\"ts\": \"t0\", \"role\": \"user\", \"content\": \"hi\"}, {\"ts\": \"t1\", \"role\": \"assistant\", \"content\": \"Hey\"}]'')
   = Inr (''user: hi'' @ [CHR 0x0A] @ ''assistant: Hey'')"
  by (simp add: history_block_def recent_def transcript_parses slice_from_def py_slice_from_def
        py_iter_def history_line_def py_getitem_def py_str_def)

text \<open>
  A backing file that is valid JSON and not a list of entries ends the turn with an
  exception before any request is sent: the number \<open>42\<close> at the slice of \<open>recent\<close>, the
  list \<open>[1]\<close> at \<open>item['role']\<close>, an entry without a role at the same place.
\<close>

lemma history_block_raises:
  "history_block (posix_host []) (FileText ''42'') = Inl TypeError"
  "history_block (posix_host []) (FileText ''[1]'') = Inl TypeError"
  "history_block (posix_host []) (FileText ''[{\"content\": \"hi\"}]'') = Inl KeyError"
  "history_block (posix_host []) BadUtf8 = Inl UnicodeDecodeError"
  by code_simp+

lemma run_turn_chat_unreadable_transcript:
  assumes "maybe_handle_smalltalk user_input = None" and "history_block h memory = Inl e"
  shows "run_turn_chat h create model user_input workspace memory st = (Inl e, st)"
  using assms by (simp add: run_turn_chat_def)

lemma run_turn_responses_unreadable_transcript:
  assumes "maybe_handle_smalltalk user_input = None" and "history_block h memory = Inl e"
  shows "run_turn_responses h create model user_input workspace memory st = Some (Inl e, st)"
  using assms by (simp add: run_turn_responses_def)

text \<open>
  C3, as the code has it. When the input is not answered by the smalltalk shortcut and
  every response of the provider asks for at least one tool call, \<open>run_turn_chat\<close>
  sends at most 12 requests to the provider; when moreover the transcript of the
  memory reads and renders without an exception and every requested tool call returns
  a result, it sends exactly 12 and returns the fixed message.
\<close>

theorem run_turn_chat_iteration_cap:
  assumes "maybe_handle_smalltalk user_input = None"
    and "\<forall>p m ms. requested_calls (fst (create p m ms)) \<noteq> []"
  shows "provider_calls (snd (run_turn_chat h create model user_input workspace memory st))
           \<le> provider_calls st + 12
         \<and> (\<not> isl (history_block h memory)
              \<and> (\<forall>p m ms w. \<not> isl (fst (run_tool_calls h workspace
                                            (requested_calls (fst (create p m ms))) w)))
              \<longrightarrow> fst (run_turn_chat h create model user_input workspace memory st)
                    = Inr ''Stopped after too many tool iterations.''
                \<and> provider_calls (snd (run_turn_chat h create model user_input workspace
                                         memory st)) = provider_calls st + 12)"
proof (cases "history_block h memory")
  case (Inl e)
  have "run_turn_chat h create model user_input workspace memory st = (Inl e, st)"
    by (simp add: run_turn_chat_def assms(1) Inl)
  then show ?thesis by (simp add: Inl)
next
  case (Inr block)
  have eq: "run_turn_chat h create model user_input workspace memory st =
              chat_rounds 12 h create model workspace
                (initial_messages workspace block (maybe_prefetch_web_context h user_input)
                   user_input) st"
    by (simp add: run_turn_chat_def assms(1) Inr)
  show ?thesis
    unfolding eq using chat_rounds_bound chat_rounds_stops [OF assms(2)] by blast
qed

lemma lookup_provider_calls: "requested_calls (fst (lookup_provider p m ms)) =
    [\<lparr> call_id = ''call_1'', call_name = ''web_lookup'',
       call_arguments = ''{\"query\": \"isabelle\"}'' \<rparr>]"
  by (simp add: lookup_provider_def requested_calls_def)

lemma lookup_call_returns:
  "run_tool_calls (posix_host []) workspace
     [\<lparr> call_id = ''call_1'', call_name = ''web_lookup'',
        call_arguments = ''{\"query\": \"isabelle\"}'' \<rparr>] w =
   (Inr [(''call_1'', dumps (posix_host []) (JObject (web_lookup (posix_host []) ''isabelle'')))],
    w)"
proof -
  have "loads (posix_host [])
          (if ''{\"query\": \"isabelle\"}'' = [] then ''{}'' else ''{\"query\": \"isabelle\"}'') =
        Inr (JObject [(''query'', JString ''isabelle'')])"
    by (simp add: loads_posix loads_query)
  from execute_tool_web_lookup_string [OF this] show ?thesis by simp
qed

text \<open>
  A provider that asks for a web lookup in every response is stopped after 12
  requests, with a transcript of two entries in the memory.
\<close>

theorem run_turn_chat_iteration_cap_witness:
  "maybe_handle_smalltalk ''list the files'' = None
   \<and> fst (run_turn_chat (posix_host []) lookup_provider ''gemma'' ''list the files''
            (Path ''/'' [''ws''])
            (FileText ''[{\"ts\": \"t0\", \"role\": \"user\", \"content\": \"hi\"}, {\"ts\": \"t1\", \"role\": \"assistant\", \"content\": \"Hey\"}]'')
            start_state) =
       Inr ''Stopped after too many tool iterations.''
   \<and> provider_calls (snd (run_turn_chat (posix_host []) lookup_provider ''gemma''
            ''list the files'' (Path ''/'' [''ws''])
            (FileText ''[{\"ts\": \"t0\", \"role\": \"user\", \"content\": \"hi\"}, {\"ts\": \"t1\", \"role\": \"assistant\", \"content\": \"Hey\"}]'')
            start_state)) = 12"
proof -
  have calls: "\<forall>p m ms. requested_calls (fst (lookup_provider p m ms)) \<noteq> []"
    by (simp add: lookup_provider_calls)
  have ok: "\<forall>p m ms w. \<not> isl (fst (run_tool_calls (posix_host []) (Path ''/'' [''ws''])
                                      (requested_calls (fst (lookup_provider p m ms))) w))"
    by (simp only: lookup_provider_calls lookup_call_returns) simp
  have hb: "\<not> isl (history_block (posix_host [])
     (FileText ''[{\"ts\": \"t0\", \"role\": \"user\", \"content\": \"hi\"}, {\"ts\": \"t1\", \"role\": \"assistant\", \"content\": \"Hey\"}]''))"
    by (simp only: history_block_transcript) simp
  from run_turn_chat_iteration_cap [OF not_smalltalk calls, of "posix_host []" "''gemma''"
         "Path ''/'' [''ws'']"
         "FileText ''[{\"ts\": \"t0\", \"role\": \"user\", \"content\": \"hi\"}, {\"ts\": \"t1\", \"role\": \"assistant\", \"content\": \"Hey\"}]''"
         start_state] ok hb not_smalltalk
  show ?thesis by (simp add: start_state_def)
qed

lemma null_provider_calls: "requested_calls (fst (null_arguments_provider p m ms)) =
    [\<lparr> call_id = ''call_1'', call_name = ''read_file'', call_arguments = ''null'' \<rparr>]"
  by (simp add: null_arguments_provider_def requested_calls_def)

lemma null_call_raises:
  "run_tool_calls (posix_host []) workspace
     [\<lparr> call_id = ''call_1'', call_name = ''read_file'', call_arguments = ''null'' \<rparr>] w =
   (Inl AttributeError, w)"
proof -
  have b: "loads (posix_host []) (if ''null'' = [] then ''{}'' else ''null'') = Inr JNull"
    by (simp add: loads_posix loads_null)
  have nn: "\<forall>kvs. JNull \<noteq> JObject kvs" by simp
  from execute_tool_not_a_dict(2) [OF b nn] show ?thesis by simp
qed

text \<open>
  C3 as stated fails. A provider that asks for \<open>read_file\<close> with the arguments \<open>null\<close>
  in every response ends the turn after one request with the \<open>AttributeError\<close> of
  \<open>execute_tool\<close>; on the input \<open>hi\<close> the turn ends with the canned greeting before any
  request, whatever the provider would answer; and with the text \<open>42\<close> in the backing
  file of the memory the turn ends with a \<open>TypeError\<close> before any request.
\<close>

theorem run_turn_chat_cap_counterexample:
  "fst (run_turn_chat (posix_host []) null_arguments_provider ''gemma'' ''list the files''
          (Path ''/'' [''ws'']) NoFile start_state) = Inl AttributeError
   \<and> provider_calls (snd (run_turn_chat (posix_host []) null_arguments_provider ''gemma''
          ''list the files'' (Path ''/'' [''ws'']) NoFile start_state)) = 1
   \<and> run_turn_chat (posix_host []) lookup_provider ''gemma'' ''hi''
          (Path ''/'' [''ws'']) NoFile start_state =
       (Inr (''Hey! I'' @ [CHR 0x27] @ ''m here. Tell me what you want to build or fix.''),
        start_state)
   \<and> run_turn_chat (posix_host []) lookup_provider ''gemma'' ''list the files''
          (Path ''/'' [''ws'']) (FileText ''42'') start_state = (Inl TypeError, start_state)
   \<and> provider_calls (snd (run_turn_chat (posix_host []) lookup_provider ''gemma''
          ''list the files'' (Path ''/'' [''ws'']) (FileText ''42'') start_state)) = 0"
proof -
  have tw: "(12::nat) = Suc 11" by simp
  let ?msgs = "initial_messages (Path ''/'' [''ws'']) []
                 (maybe_prefetch_web_context (posix_host []) ''list the files'') ''list the files''"
  obtain message where
    cr: "null_arguments_provider (provider_state start_state) ''gemma'' ?msgs = (message, ())"
    and msg: "message = fst (null_arguments_provider () ''gemma'' ?msgs)"
    by (simp add: null_arguments_provider_def)
  have rc: "requested_calls message =
      [\<lparr> call_id = ''call_1'', call_name = ''read_file'', call_arguments = ''null'' \<rparr>]"
    unfolding msg by (rule null_provider_calls)
  have ne: "requested_calls message \<noteq> []" by (simp add: rc)
  have rt: "run_tool_calls (posix_host []) (Path ''/'' [''ws'']) (requested_calls message)
              (tool_world start_state) = (Inl AttributeError, tool_world start_state)"
    unfolding rc by (rule null_call_raises)
  have "run_turn_chat (posix_host []) null_arguments_provider ''gemma'' ''list the files''
          (Path ''/'' [''ws'']) NoFile start_state =
        (Inl AttributeError,
         start_state\<lparr>provider_state := (), provider_calls := provider_calls start_state + 1,
                     tool_world := tool_world start_state\<rparr>)"
    unfolding run_turn_chat_def not_smalltalk history_block_no_file tw
    by (simp only: option.case sum.case chat_rounds_raise [where create = null_arguments_provider
          and st = start_state, OF cr ne rt])
  moreover have "run_turn_chat (posix_host []) lookup_provider ''gemma'' ''hi''
          (Path ''/'' [''ws'']) NoFile start_state =
       (Inr (''Hey! I'' @ [CHR 0x27] @ ''m here. Tell me what you want to build or fix.''),
        start_state)"
    by (simp only: run_turn_chat_def smalltalk_hi option.case)
  moreover have "run_turn_chat (posix_host []) lookup_provider ''gemma'' ''list the files''
          (Path ''/'' [''ws'']) (FileText ''42'') start_state = (Inl TypeError, start_state)"
    by (simp only: run_turn_chat_def not_smalltalk history_block_raises(1) option.case sum.case)
  ultimately show ?thesis by (simp add: start_state_def)
qed

section \<open>Properties of the smalltalk shortcut\<close>

lemma split_on_map:
  assumes "\<forall>c\<in>set s. sep (f c) = sep c \<and> (\<not> sep c \<longrightarrow> f c = c)"
  shows "split_on sep w (map f s) = split_on sep w s"
  using assms by (induction s arbitrary: w) auto

lemma split_on_chars:
  "\<Union> (set ` set (split_on sep w s)) = set w \<union> {c \<in> set s. \<not> sep c}"
  by (induction s arbitrary: w) auto

lemma split_on_nonempty: "[] \<notin> set (split_on sep w s)"
  by (induction s arbitrary: w) auto

lemma split_on_dropWhile: "split_on sep [] (dropWhile sep s) = split_on sep [] s"
  by (induction s) auto

lemma split_on_all_sep: "list_all sep t \<Longrightarrow> split_on sep w t = (if w = [] then [] else [w])"
  by (induction t arbitrary: w) auto

lemma split_on_append_sep:
  "list_all sep t \<Longrightarrow> split_on sep w (s @ t) = split_on sep w s"
  by (induction s arbitrary: w) (auto simp: split_on_all_sep)

lemma py_split_strip: "py_split (py_strip s) = py_split s"
proof -
  obtain t where t: "dropWhile is_space s = py_strip s @ t" and sp: "list_all is_space t"
    using py_strip_decomp by blast
  have "py_split s = split_on is_space [] (dropWhile is_space s)"
    by (simp only: py_split_def split_on_dropWhile)
  also have "\<dots> = split_on is_space [] (py_strip s)"
    by (simp only: t split_on_append_sep [OF sp])
  finally show ?thesis by (simp only: py_split_def)
qed

lemma py_split_Nil: "py_split [] = []"
  by (simp add: py_split_def)

lemma greeting_letters: "list_all (list_all lower_letter) GREETING_WORDS"
  by code_simp

lemma space_codes:
  "is_space c \<Longrightarrow>
     (of_char c :: nat) \<in> {9, 10, 11, 12, 13, 28, 29, 30, 31, 32, 133, 160}"
  by (auto simp: is_space_def)

lemma clean_letter:
  assumes "lower_letter c"
  shows "py_lower_char c = c" and "smalltalk_keeps c" and "\<not> is_space c"
proof -
  from assms have r: "(97::nat) \<le> of_char c" "(of_char c :: nat) \<le> 122"
    by (simp_all add: lower_letter_def)
  show "py_lower_char c = c" using r by (simp add: py_lower_char_def Let_def)
  show "smalltalk_keeps c" using r by (simp add: smalltalk_keeps_def Let_def)
  show "\<not> is_space c" using r space_codes [of c] by auto
qed

lemma clean_space:
  assumes "is_space c"
  shows "py_lower_char c = c" and "\<not> smalltalk_keeps c"
proof -
  from space_codes [OF assms]
  have r: "(of_char c :: nat) \<in> {9, 10, 11, 12, 13, 28, 29, 30, 31, 32, 133, 160}" .
  show "py_lower_char c = c" using r by (auto simp: py_lower_char_def Let_def)
  have "c \<noteq> CHR 0x5C" using r by auto
  then show "\<not> smalltalk_keeps c" using r by (auto simp: smalltalk_keeps_def Let_def)
qed

lemma blank_is_space: "is_space (CHR 0x20)"
  by (simp add: is_space_def)


lemma smalltalk_clean_map:
  "smalltalk_clean s =
     py_strip (map (\<lambda>c. if smalltalk_keeps (py_lower_char c) then py_lower_char c else CHR 0x20) s)"
  by (simp add: smalltalk_clean_def py_lower_def comp_def)

lemma token_chars_are_letters:
  assumes "list_all (\<lambda>w. w \<in> set GREETING_WORDS) (py_split s)"
    and "c \<in> set s" and "\<not> is_space c"
  shows "lower_letter c"
proof -
  have "c \<in> \<Union> (set ` set (split_on is_space [] s))"
    using assms(2,3) by (simp only: split_on_chars) simp
  then obtain t where t: "t \<in> set (py_split s)" and c: "c \<in> set t"
    unfolding py_split_def by blast
  from assms(1) t have "t \<in> set GREETING_WORDS" by (simp add: list_all_iff)
  with greeting_letters have "list_all lower_letter t" by (simp add: list_all_iff)
  with c show ?thesis by (simp add: list_all_iff)
qed

lemma smalltalk_words_of_tokens:
  assumes "list_all (\<lambda>w. w \<in> set GREETING_WORDS) (py_split s)"
  shows "py_split (smalltalk_clean s) = py_split s"
proof -
  let ?f = "\<lambda>c. if smalltalk_keeps (py_lower_char c) then py_lower_char c else CHR 0x20"
  have cls: "\<forall>c\<in>set s. is_space (?f c) = is_space c \<and> (\<not> is_space c \<longrightarrow> ?f c = c)"
  proof
    fix c assume cs: "c \<in> set s"
    show "is_space (?f c) = is_space c \<and> (\<not> is_space c \<longrightarrow> ?f c = c)"
    proof (cases "is_space c")
      case True
      then show ?thesis by (simp add: clean_space blank_is_space)
    next
      case False
      with assms cs have "lower_letter c" by (rule token_chars_are_letters)
      with False show ?thesis by (simp add: clean_letter)
    qed
  qed
  have "py_split (smalltalk_clean s) = py_split (map ?f s)"
    by (simp only: smalltalk_clean_map py_split_strip)
  also have "\<dots> = py_split s"
    unfolding py_split_def using cls by (rule split_on_map)
  finally show ?thesis .
qed

lemma smalltalk_reply:
  assumes "py_split user_input \<noteq> []" and "length (py_split user_input) \<le> 3"
    and "list_all (\<lambda>w. w \<in> set GREETING_WORDS) (py_split user_input)"
  shows "maybe_handle_smalltalk user_input =
           Some (if list_ex (\<lambda>w. w \<in> set [''hoi'', ''hallo'', ''goedemorgen'', ''goedemiddag'',
                                           ''goedenavond'']) (py_split user_input)
                 then ''Hoi! Ik ben er. Zeg maar wat je wilt doen, dan help ik je direct.''
                 else ''Hey! I'' @ [CHR 0x27] @ ''m here. Tell me what you want to build or fix.'')"
proof -
  have words: "py_split (smalltalk_clean user_input) = py_split user_input"
    using assms(3) by (rule smalltalk_words_of_tokens)
  have ne: "smalltalk_clean user_input \<noteq> []"
  proof
    assume "smalltalk_clean user_input = []"
    with words have "py_split user_input = py_split []" by (simp only:)
    with assms(1) show False by (simp only: py_split_Nil)
  qed
  have flt: "filter (\<lambda>w. w \<noteq> []) (py_split user_input) = py_split user_input"
    unfolding py_split_def filter_id_conv using split_on_nonempty by metis
  show ?thesis
    unfolding maybe_handle_smalltalk_def Let_def words flt
    using ne assms by simp
qed

text \<open>
  C8. When the input, split at white space, consists of one to three tokens that are
  all greeting words, both protocol variants of the turn engine return one of the two
  canned replies and leave the state as it was: no request is sent to the provider,
  and the memory is not read.
\<close>

theorem greeting_short_circuit:
  assumes "py_split user_input \<noteq> []" and "length (py_split user_input) \<le> 3"
    and "list_all (\<lambda>w. w \<in> set GREETING_WORDS) (py_split user_input)"
  shows "\<exists>reply. maybe_handle_smalltalk user_input = Some reply
           \<and> reply \<in> {''Hoi! Ik ben er. Zeg maar wat je wilt doen, dan help ik je direct.'',
                       ''Hey! I'' @ [CHR 0x27] @ ''m here. Tell me what you want to build or fix.''}
           \<and> run_turn_chat h create model user_input workspace memory st = (Inr reply, st)
           \<and> run_turn_responses h create' model user_input workspace memory st' =
               Some (Inr reply, st')"
proof -
  from smalltalk_reply [OF assms] obtain reply where
    r: "maybe_handle_smalltalk user_input = Some reply"
    and m: "reply \<in> {''Hoi! Ik ben er. Zeg maar wat je wilt doen, dan help ik je direct.'',
                      ''Hey! I'' @ [CHR 0x27] @ ''m here. Tell me what you want to build or fix.''}"
    by (cases "list_ex (\<lambda>w. w \<in> set [''hoi'', ''hallo'', ''goedemorgen'', ''goedemiddag'',
                                         ''goedenavond'']) (py_split user_input)") simp_all
  have "run_turn_chat h create model user_input workspace memory st = (Inr reply, st)"
    by (simp add: run_turn_chat_def r)
  moreover have "run_turn_responses h create' model user_input workspace memory st' =
          Some (Inr reply, st')"
    by (simp add: run_turn_responses_def r)
  ultimately show ?thesis using r m by blast
qed

lemma split_hoi: "py_split ''hoi  hallo'' = [''hoi'', ''hallo'']"
  by (simp add: py_split_def is_space_def)

text \<open>
  Two Dutch greetings are answered in Dutch, by both variants, also when the backing
  file of the memory cannot be decoded.
\<close>

theorem greeting_short_circuit_witness:
  "py_split ''hoi  hallo'' \<noteq> [] \<and> length (py_split ''hoi  hallo'') \<le> 3
   \<and> list_all (\<lambda>w. w \<in> set GREETING_WORDS) (py_split ''hoi  hallo'')
   \<and> run_turn_chat (posix_host []) null_arguments_provider ''gemma'' ''hoi  hallo''
       (Path ''/'' [''ws'']) BadUtf8 start_state =
       (Inr ''Hoi! Ik ben er. Zeg maar wat je wilt doen, dan help ik je direct.'', start_state)
   \<and> run_turn_responses (posix_host [])
       (\<lambda>p m r. (\<lparr> response_id = ''r1'', function_calls = [], output_text = ''Done.'' \<rparr>, p))
       ''gemma'' ''hoi  hallo'' (Path ''/'' [''ws'']) BadUtf8 start_state =
       Some (Inr ''Hoi! Ik ben er. Zeg maar wat je wilt doen, dan help ik je direct.'', start_state)"
proof -
  have a: "py_split ''hoi  hallo'' \<noteq> []" by (simp add: split_hoi)
  have b: "length (py_split ''hoi  hallo'') \<le> 3" by (simp add: split_hoi)
  have c: "list_all (\<lambda>w. w \<in> set GREETING_WORDS) (py_split ''hoi  hallo'')"
    by (simp add: split_hoi GREETING_WORDS_def)
  have d: "maybe_handle_smalltalk ''hoi  hallo'' =
             Some ''Hoi! Ik ben er. Zeg maar wat je wilt doen, dan help ik je direct.''"
    using smalltalk_reply [OF a b c] by (simp add: split_hoi)
  from greeting_short_circuit [OF a b c, of "posix_host []" null_arguments_provider "''gemma''"
         "Path ''/'' [''ws'']" BadUtf8 start_state
         "\<lambda>p m r. (\<lparr> response_id = ''r1'', function_calls = [], output_text = ''Done.'' \<rparr>, p)"
         start_state]
  show ?thesis using a b c by (simp only: d option.inject) simp
qed

end
